theory Spec2Isabelle
  imports Main "HOL-Library.Sublist"
begin

section \<open>JavaScript strings\<close>

text \<open>
  A JavaScript string is modelled as a \<^typ>\<open>string\<close>: the list of the bytes of its UTF-8
  encoding.  Substring search, splitting and prefix tests on the bytes agree with the same
  operations on the code units, because UTF-8 is self-synchronising; \<open>length\<close> counts
  bytes, which is the JavaScript length on ASCII text.  Case mapping acts on the ASCII
  letters, white space is the ASCII white space (tab, line feed, vertical tab, form feed,
  carriage return, space) and the line terminators are the line feed and the carriage
  return; the characters beyond ASCII are caseless, never white space and never line
  terminators.  On text beyond ASCII the source can therefore differ from the model: it
  also trims and skips the Unicode spaces such as U+00A0, maps the case of letters beyond
  ASCII, and counts UTF-16 code units.
\<close>

definition toLowerChar :: "char \<Rightarrow> char" where
  "toLowerChar c =
     (case map_of (zip ''ABCDEFGHIJKLMNOPQRSTUVWXYZ'' ''abcdefghijklmnopqrstuvwxyz'') c of
        Some d \<Rightarrow> d | None \<Rightarrow> c)"

definition toUpperChar :: "char \<Rightarrow> char" where
  "toUpperChar c =
     (case map_of (zip ''abcdefghijklmnopqrstuvwxyz'' ''ABCDEFGHIJKLMNOPQRSTUVWXYZ'') c of
        Some d \<Rightarrow> d | None \<Rightarrow> c)"

definition toLowerCase :: "string \<Rightarrow> string" where
  "toLowerCase s = map toLowerChar s"

text \<open>\<open>s.includes(p)\<close> and \<open>s.startsWith(p)\<close>.\<close>

definition includesStr :: "string \<Rightarrow> string \<Rightarrow> bool" where
  "includesStr s p = sublist p s"

definition startsWith :: "string \<Rightarrow> string \<Rightarrow> bool" where
  "startsWith s p = prefix p s"

text \<open>\<open>s[0]\<close>: \<open>undefined\<close> (here \<open>None\<close>) on the empty string.\<close>

definition charAt0 :: "string \<Rightarrow> char option" where
  "charAt0 s = (case s of [] \<Rightarrow> None | c # _ \<Rightarrow> Some c)"

text \<open>\<open>s.trim()\<close>: white space is removed at both ends.\<close>

definition isSpace :: "char \<Rightarrow> bool" where
  "isSpace c = (c \<in> set [CHR 0x09, CHR 0x0A, CHR 0x0B, CHR 0x0C, CHR 0x0D, CHR '' ''])"

definition trim :: "string \<Rightarrow> string" where
  "trim s = rev (dropWhile isSpace (rev (dropWhile isSpace s)))"

section \<open>ErrorHandler.findClosestMatch\<close>

text \<open>
  The score of the source is a floating-point sum of \<open>0.8\<close>, \<open>0.2\<close> and \<open>0.1\<close>, added
  in this order.  The eight sums that can arise, \<open>0, 0.1, 0.2, 0.30000000000000004, 0.8, 0.9,
  1, 1.1\<close>, are ordered as the integers \<open>0, 1, 2, 3, 8, 9, 10, 11\<close> and the test
  \<open>score >= 0.3\<close> holds exactly from the fourth on, so the model counts tenths.
\<close>

definition lengthDiff :: "string \<Rightarrow> string \<Rightarrow> nat" where
  "lengthDiff target candidate =
     (if length target \<le> length candidate then length candidate - length target
      else length target - length candidate)"

definition matchScore :: "string \<Rightarrow> string \<Rightarrow> nat" where
  "matchScore target candidate =
     (let targetLower = toLowerCase target; candidateLower = toLowerCase candidate in
        (if includesStr candidateLower targetLower \<or> includesStr targetLower candidateLower
         then 8 else 0)
      + (if charAt0 targetLower = charAt0 candidateLower then 2 else 0)
      + (if lengthDiff target candidate \<le> 2 then 1 else 0))"

fun closestLoop :: "string \<Rightarrow> string list \<Rightarrow> string option \<Rightarrow> nat \<Rightarrow> string option" where
  "closestLoop target [] bestMatch bestScore = bestMatch"
| "closestLoop target (candidate # rest) bestMatch bestScore =
     (if toLowerCase target = toLowerCase candidate then Some candidate
      else if matchScore target candidate > bestScore \<and> matchScore target candidate \<ge> 3
           then closestLoop target rest (Some candidate) (matchScore target candidate)
           else closestLoop target rest bestMatch bestScore)"

definition findClosestMatch :: "string \<Rightarrow> string list \<Rightarrow> string option" where
  "findClosestMatch target candidates = closestLoop target candidates None 0"

text \<open>
  The heuristic as the specification words it: an exact case-insensitive match wins;
  otherwise the first candidate that reaches the highest score is returned when that score
  is at least \<open>0.3\<close>, and nothing otherwise.
\<close>

definition specScore :: "string \<Rightarrow> string \<Rightarrow> nat" where
  "specScore query candidate =
     (if sublist (toLowerCase query) (toLowerCase candidate)
         \<or> sublist (toLowerCase candidate) (toLowerCase query) then 8 else 0)
   + (if charAt0 (toLowerCase query) = charAt0 (toLowerCase candidate) then 2 else 0)
   + (if int (length query) - int (length candidate) \<in> {-2..2} then 1 else 0)"

definition closestMatchSpec :: "string \<Rightarrow> string list \<Rightarrow> string option" where
  "closestMatchSpec query candidates =
     (case find (\<lambda>c. toLowerCase c = toLowerCase query) candidates of
        Some c \<Rightarrow> Some c
      | None \<Rightarrow>
          (let best = foldr max (map (specScore query) candidates) 0
           in if best \<ge> 3 then find (\<lambda>c. specScore query c = best) candidates else None))"


section \<open>EmotionFoodMapperImpl.mapEmotionToFood\<close>

record FoodRecommendation =
  rec_food :: string
  rec_reasoning :: string
  rec_culturalContext :: string
  rec_spiceLevel :: string

record EmotionEntry =
  entry_food :: string
  entry_reasoning :: string
  entry_spiceLevel :: string
  entry_homeVsStreet :: string

text \<open>The table built by the constructor; a \<open>Map\<close> is an association list in insertion order.\<close>

definition emotionMappings :: "(string \<times> EmotionEntry) list" where
  "emotionMappings =
     [(''sad'', \<lparr>entry_food = ''Pappu with Avakaya'',
         entry_reasoning = ''Comfort food that brings nostalgia and warmth, like amma's cooking'',
         entry_spiceLevel = ''medium'', entry_homeVsStreet = ''home''\<rparr>),
      (''sick'', \<lparr>entry_food = ''Rasam'',
         entry_reasoning = ''Light, healing soup with pepper that soothes the body and aids digestion'',
         entry_spiceLevel = ''low'', entry_homeVsStreet = ''home''\<rparr>),
      (''happy'', \<lparr>entry_food = ''Biryani'',
         entry_reasoning = ''Celebratory feast food that matches the joy and festive mood'',
         entry_spiceLevel = ''high'', entry_homeVsStreet = ''street''\<rparr>),
      (''angry'', \<lparr>entry_food = ''Curd Rice'',
         entry_reasoning = ''Cooling effect that calms the mind and reduces body heat from anger'',
         entry_spiceLevel = ''low'', entry_homeVsStreet = ''home''\<rparr>),
      (''tired'', \<lparr>entry_food = ''Coffee with Punugulu'',
         entry_reasoning = ''Energy boost from caffeine paired with crispy snacks for quick satisfaction'',
         entry_spiceLevel = ''medium'', entry_homeVsStreet = ''street''\<rparr>)]"

definition mapEmotionToFood :: "string \<Rightarrow> FoodRecommendation" where
  "mapEmotionToFood emotion =
     (let normalizedEmotion = trim (toLowerCase emotion) in
      case map_of emotionMappings normalizedEmotion of
        None \<Rightarrow>
          \<lparr>rec_food = ''Pappu with Avakaya'',
           rec_reasoning = ''When in doubt, comfort food like pappu always helps, ra!'',
           rec_culturalContext =
             ''In Andhra culture, pappu is the ultimate comfort food that soothes any emotion'',
           rec_spiceLevel = ''medium''\<rparr>
      | Some mapping \<Rightarrow>
          \<lparr>rec_food = entry_food mapping,
           rec_reasoning = entry_reasoning mapping,
           rec_culturalContext =
             ''In Andhra culture, food is emotional medicine - '' @ entry_food mapping
               @ '' is perfect for when you're feeling '' @ emotion,
           rec_spiceLevel = entry_spiceLevel mapping\<rparr>)"

section \<open>The knowledge records\<close>

record RegionalVariation =
  region :: string
  variation :: string

text \<open>An optional field that is absent (\<open>undefined\<close>) is \<open>None\<close>.\<close>

record SlangInfo =
  slang_term :: string
  slang_literalMeaning :: string
  slang_emotionalIntent :: string
  slang_socialAppropriateness :: string
  slang_formalityLevel :: string
  slang_regionalVariations :: "RegionalVariation list option"

record FoodInfo =
  food_name :: string
  food_city :: string
  food_spiceLevel :: string
  food_bestTime :: string
  food_description :: string
  food_culturalSignificance :: "string option"

record FestivalInfo =
  festival_name :: string
  festival_culturalMeaning :: string
  festival_associatedFoods :: "string list"
  festival_foodSymbolism :: string
  festival_emotionalTone :: string
  festival_regionalVariations :: "RegionalVariation list option"

record EmotionFoodMapping =
  mapping_emotion :: string
  mapping_recommendedFood :: string
  mapping_emotionalLogic :: string
  mapping_homeVsStreet :: string

record ParsedCulturalData =
  parsed_slang :: "SlangInfo list"
  parsed_food :: "FoodInfo list"
  parsed_festivals :: "FestivalInfo list"
  parsed_emotions :: "EmotionFoodMapping list"

section \<open>DataValidator\<close>

text \<open>
  The records reaching the validators here are typed: every required scalar field holds a
  string, so \<open>!x || typeof x !== 'string' || x.trim() === ''\<close> is the test that the trimmed
  string is empty (the empty string is the only falsy string).
\<close>

definition blankField :: "string \<Rightarrow> bool" where
  "blankField x = (x = [] \<or> trim x = [])"

definition validVariations :: "RegionalVariation list option \<Rightarrow> bool" where
  "validVariations vs =
     (case vs of None \<Rightarrow> True
      | Some l \<Rightarrow> list_all (\<lambda>v. \<not> (region v = [] \<or> variation v = [])) l)"

definition validateSlangInfo :: "SlangInfo \<Rightarrow> bool" where
  "validateSlangInfo slang =
     (if list_ex blankField
           [slang_term slang, slang_literalMeaning slang, slang_emotionalIntent slang,
            slang_socialAppropriateness slang, slang_formalityLevel slang] then False
      else if slang_formalityLevel slang \<notin> set [''formal'', ''informal''] then False
      else validVariations (slang_regionalVariations slang))"

definition validateFoodInfo :: "FoodInfo \<Rightarrow> bool" where
  "validateFoodInfo food =
     (if list_ex blankField
           [food_name food, food_city food, food_spiceLevel food, food_bestTime food,
            food_description food] then False
      else if food_spiceLevel food \<notin> set [''low'', ''medium'', ''high'', ''extreme''] then False
      else if \<not> list_ex (\<lambda>time. includesStr (food_bestTime food) time)
                  [''Morning'', ''Lunch'', ''Evening'', ''Any''] then False
      else True)"

definition validateFestivalInfo :: "FestivalInfo \<Rightarrow> bool" where
  "validateFestivalInfo festival =
     (if list_ex blankField
           [festival_name festival, festival_culturalMeaning festival,
            festival_foodSymbolism festival, festival_emotionalTone festival] then False
      else if festival_associatedFoods festival = [] then False
      else if list_ex (\<lambda>food. trim food = []) (festival_associatedFoods festival) then False
      else validVariations (festival_regionalVariations festival))"

definition validateEmotionFoodMapping :: "EmotionFoodMapping \<Rightarrow> bool" where
  "validateEmotionFoodMapping mapping =
     (if list_ex blankField
           [mapping_emotion mapping, mapping_recommendedFood mapping,
            mapping_emotionalLogic mapping, mapping_homeVsStreet mapping] then False
      else if mapping_homeVsStreet mapping \<notin> set [''home'', ''street'', ''both''] then False
      else if mapping_emotion mapping \<noteq> toLowerCase (mapping_emotion mapping) then False
      else True)"

text \<open>
  \<open>validateDataCompleteness\<close> returns the list of error messages; the data is valid
  when it is empty.  The \<open>Set\<close> of the cities is used for membership only.
\<close>

definition validateDataCompleteness :: "ParsedCulturalData \<Rightarrow> string list" where
  "validateDataCompleteness data =
     (let providedEmotions = map (\<lambda>e. toLowerCase (mapping_emotion e)) (parsed_emotions data);
          providedCities = remdups (map (\<lambda>f. toLowerCase (food_city f)) (parsed_food data))
      in (if parsed_slang data = [] then [''No slang data provided''] else [])
       @ (if parsed_food data = [] then [''No food data provided''] else [])
       @ (if parsed_festivals data = [] then [''No festival data provided''] else [])
       @ (if parsed_emotions data = [] then [''No emotion-food mapping data provided''] else [])
       @ concat (map (\<lambda>emotion. if emotion \<notin> set providedEmotions
                        then [''Missing required emotion mapping: '' @ emotion] else [])
                  [''sad'', ''sick'', ''happy'', ''angry'', ''tired''])
       @ concat (map (\<lambda>city. if city \<notin> set providedCities
                        then [''Missing food data for required city: '' @ city] else [])
                  [''visakhapatnam'', ''vijayawada'', ''guntur'', ''tirupati'']))"

definition isValidData :: "ParsedCulturalData \<Rightarrow> bool" where
  "isValidData data = (validateDataCompleteness data = [])"

section \<open>CulturalDatabaseImpl\<close>

text \<open>
  A JavaScript \<open>Map\<close> is an association list in insertion order with distinct keys:
  \<open>get\<close> is \<^const>\<open>map_of\<close>, and \<open>set\<close> overwrites the value of a key in place or
  appends a new key.
\<close>

fun mapSet :: "'k \<Rightarrow> 'v \<Rightarrow> ('k \<times> 'v) list \<Rightarrow> ('k \<times> 'v) list" where
  "mapSet k v [] = [(k, v)]"
| "mapSet k v ((k', v') # m) = (if k' = k then (k, v) # m else (k', v') # mapSet k v m)"

record Store =
  slangData :: "(string \<times> SlangInfo) list"
  foodData :: "(string \<times> FoodInfo list) list"
  festivalData :: "(string \<times> FestivalInfo) list"
  emotionFoodData :: "(string \<times> EmotionFoodMapping) list"
  isLoaded :: bool

datatype jsError = ReadError | DatabaseError | TypeError

definition emptyStore :: Store where
  "emptyStore = \<lparr>slangData = [], foodData = [], festivalData = [], emotionFoodData = [],
                 isLoaded = False\<rparr>"

text \<open>
  Grouping by city: \<open>if (!has(cityKey)) set(cityKey, []); get(cityKey).push(food)\<close>.
\<close>

definition pushFood :: "FoodInfo \<Rightarrow> (string \<times> FoodInfo list) list \<Rightarrow> (string \<times> FoodInfo list) list" where
  "pushFood food m =
     (let cityKey = toLowerCase (food_city food) in
      case map_of m cityKey of
        None \<Rightarrow> mapSet cityKey [food] m
      | Some foods \<Rightarrow> mapSet cityKey (foods @ [food]) m)"

definition loadSlangEntries :: "SlangInfo list \<Rightarrow> Store \<Rightarrow> Store" where
  "loadSlangEntries entries st =
     st\<lparr>slangData := fold (\<lambda>slang. mapSet (toLowerCase (slang_term slang)) slang) entries
                          (slangData st)\<rparr>"

definition loadFoodEntries :: "FoodInfo list \<Rightarrow> Store \<Rightarrow> Store" where
  "loadFoodEntries entries st = st\<lparr>foodData := fold pushFood entries (foodData st)\<rparr>"

definition loadFestivalEntries :: "FestivalInfo list \<Rightarrow> Store \<Rightarrow> Store" where
  "loadFestivalEntries entries st =
     st\<lparr>festivalData := fold (\<lambda>festival. mapSet (toLowerCase (festival_name festival)) festival)
                             entries (festivalData st)\<rparr>"

definition loadEmotionEntries :: "EmotionFoodMapping list \<Rightarrow> Store \<Rightarrow> Store" where
  "loadEmotionEntries entries st =
     st\<lparr>emotionFoodData := fold (\<lambda>mapping. mapSet (toLowerCase (mapping_emotion mapping)) mapping)
                                entries (emotionFoodData st)\<rparr>"

definition loadFromParsedData :: "ParsedCulturalData \<Rightarrow> Store \<Rightarrow> Store" where
  "loadFromParsedData data st =
     loadEmotionEntries (parsed_emotions data)
       (loadFestivalEntries (parsed_festivals data)
         (loadFoodEntries (parsed_food data)
           (loadSlangEntries (parsed_slang data) st)))"

definition slangEntries :: "SlangInfo list" where
  "slangEntries =
     [\<lparr>slang_term = ''Arey Baboi'', slang_literalMeaning = ''Oh my God'',
       slang_emotionalIntent = ''Shock / frustration / disbelief'',
       slang_socialAppropriateness = ''Informal only'', slang_formalityLevel = ''informal'',
       slang_regionalVariations = Some []\<rparr>,
      \<lparr>slang_term = ''Doola Teerinda?'', slang_literalMeaning = ''Are you out of your mind?'',
       slang_emotionalIntent = ''Anger / scolding'',
       slang_socialAppropriateness = ''Use only among close relations'',
       slang_formalityLevel = ''informal'', slang_regionalVariations = None\<rparr>,
      \<lparr>slang_term = ''Taggede Le'', slang_literalMeaning = ''I won't step back'',
       slang_emotionalIntent = ''Confidence / motivation'',
       slang_socialAppropriateness = ''Often used humorously'',
       slang_formalityLevel = ''informal'', slang_regionalVariations = None\<rparr>,
      \<lparr>slang_term = ''Lite Teesko'', slang_literalMeaning = ''Don't worry about it'',
       slang_emotionalIntent = ''Comfort / casual dismissal'',
       slang_socialAppropriateness = ''Casual conversations'',
       slang_formalityLevel = ''informal'', slang_regionalVariations = None\<rparr>,
      \<lparr>slang_term = ''Chala Scene Undi'', slang_literalMeaning = ''Too much drama'',
       slang_emotionalIntent = ''Sarcasm'', slang_socialAppropriateness = ''Youth slang'',
       slang_formalityLevel = ''informal'', slang_regionalVariations = None\<rparr>]"

definition foodEntries :: "FoodInfo list" where
  "foodEntries =
     [\<lparr>food_name = ''Punugulu'', food_city = ''Visakhapatnam'', food_spiceLevel = ''medium'',
       food_bestTime = ''Evening'',
       food_description = ''Deep-fried lentil balls, crispy outside and soft inside'',
       food_culturalSignificance = Some ''Popular evening snack near beach areas''\<rparr>,
      \<lparr>food_name = ''Bongulo Chicken'', food_city = ''Visakhapatnam'', food_spiceLevel = ''high'',
       food_bestTime = ''Evening'',
       food_description = ''Spicy chicken preparation with coastal flavors'',
       food_culturalSignificance = Some ''Coastal Andhra specialty with seafood influence''\<rparr>,
      \<lparr>food_name = ''Idli with Karam'', food_city = ''Vijayawada'', food_spiceLevel = ''high'',
       food_bestTime = ''Morning'', food_description = ''Steamed rice cakes with spicy powder'',
       food_culturalSignificance = Some ''Traditional breakfast combining comfort with spice''\<rparr>,
      \<lparr>food_name = ''Chicken Pakodi'', food_city = ''Vijayawada'', food_spiceLevel = ''medium'',
       food_bestTime = ''Evening'', food_description = ''Spiced chicken fritters'',
       food_culturalSignificance = Some ''Popular evening snack in Krishna district''\<rparr>,
      \<lparr>food_name = ''Mirchi Bajji'', food_city = ''Guntur'', food_spiceLevel = ''extreme'',
       food_bestTime = ''Evening'', food_description = ''Stuffed chili fritters'',
       food_culturalSignificance =
         Some ''Guntur's signature dish showcasing extreme spice tolerance''\<rparr>,
      \<lparr>food_name = ''Gongura Pachadi'', food_city = ''Guntur'', food_spiceLevel = ''high'',
       food_bestTime = ''Lunch'', food_description = ''Tangy sorrel leaves chutney'',
       food_culturalSignificance = Some ''Guntur's pride, represents bold flavors''\<rparr>,
      \<lparr>food_name = ''Dosa with Red Chutney'', food_city = ''Tirupati'', food_spiceLevel = ''medium'',
       food_bestTime = ''Morning'', food_description = ''Crispy crepe with spicy red chutney'',
       food_culturalSignificance = Some ''Temple town breakfast tradition''\<rparr>,
      \<lparr>food_name = ''Laddu'', food_city = ''Tirupati'', food_spiceLevel = ''low'',
       food_bestTime = ''Any'', food_description = ''Sweet gram flour balls'',
       food_culturalSignificance = Some ''Sacred temple prasadam, spiritually significant''\<rparr>,
      \<lparr>food_name = ''Vegetable Biryani'', food_city = ''Tirupati'', food_spiceLevel = ''medium'',
       food_bestTime = ''Evening'',
       food_description = ''Aromatic rice with mixed vegetables and spices'',
       food_culturalSignificance = Some ''Temple town vegetarian specialty for evening meals''\<rparr>,
      \<lparr>food_name = ''Curd Rice'', food_city = ''Tirupati'', food_spiceLevel = ''low'',
       food_bestTime = ''Evening'', food_description = ''Cooling rice with yogurt and mild tempering'',
       food_culturalSignificance = Some ''Temple town comfort food, perfect for evening''\<rparr>]"

definition festivalEntries :: "FestivalInfo list" where
  "festivalEntries =
     [\<lparr>festival_name = ''Sankranti'',
       festival_culturalMeaning =
         ''Harvest festival celebrating the transition of seasons and agricultural abundance'',
       festival_associatedFoods = [''Ariselu'', ''Pongal''],
       festival_foodSymbolism =
         ''Ariselu represents prosperity, Pongal symbolizes gratitude to nature'',
       festival_emotionalTone = ''Family bonding and gratitude'',
       festival_regionalVariations = Some
         [\<lparr>region = ''coastal'',
           variation = ''More emphasis on seafood preparations alongside traditional sweets''\<rparr>,
          \<lparr>region = ''rayalaseema'',
           variation = ''Focus on simple, rustic preparations with local grains''\<rparr>]\<rparr>,
      \<lparr>festival_name = ''Ugadi'',
       festival_culturalMeaning =
         ''Telugu New Year symbolizing new beginnings and the balance of life experiences'',
       festival_associatedFoods = [''Ugadi Pachadi''],
       festival_foodSymbolism =
         ''Six tastes represent the full spectrum of life experiences - sweet, sour, salty, bitter, spicy, and astringent'',
       festival_emotionalTone = ''Hope and renewal'',
       festival_regionalVariations = None\<rparr>,
      \<lparr>festival_name = ''Vinayaka Chavithi'',
       festival_culturalMeaning =
         ''Ganesh worship celebrating wisdom, prosperity, and removal of obstacles'',
       festival_associatedFoods = [''Modakam''],
       festival_foodSymbolism =
         ''Modakam represents the sweetness of devotion and Lord Ganesha's favorite offering'',
       festival_emotionalTone = ''Joy and community celebration'',
       festival_regionalVariations = None\<rparr>]"

definition emotionMappingEntries :: "EmotionFoodMapping list" where
  "emotionMappingEntries =
     [\<lparr>mapping_emotion = ''sad'', mapping_recommendedFood = ''Pappu with Avakaya'',
       mapping_emotionalLogic =
         ''Comfort food that brings nostalgia and warmth, like mother's cooking'',
       mapping_homeVsStreet = ''home''\<rparr>,
      \<lparr>mapping_emotion = ''sick'', mapping_recommendedFood = ''Rasam'',
       mapping_emotionalLogic = ''Light, healing properties with digestive benefits and warmth'',
       mapping_homeVsStreet = ''home''\<rparr>,
      \<lparr>mapping_emotion = ''happy'', mapping_recommendedFood = ''Biryani'',
       mapping_emotionalLogic = ''Celebratory dish that represents abundance and festive mood'',
       mapping_homeVsStreet = ''both''\<rparr>,
      \<lparr>mapping_emotion = ''angry'', mapping_recommendedFood = ''Curd Rice'',
       mapping_emotionalLogic =
         ''Cooling effect that calms the mind and reduces heat in the body'',
       mapping_homeVsStreet = ''home''\<rparr>,
      \<lparr>mapping_emotion = ''tired'', mapping_recommendedFood = ''Coffee with Punugulu'',
       mapping_emotionalLogic =
         ''Energy boost from caffeine combined with satisfying evening snack'',
       mapping_homeVsStreet = ''street''\<rparr>]"

definition loadHardcodedData :: "Store \<Rightarrow> Store" where
  "loadHardcodedData st =
     loadEmotionEntries emotionMappingEntries
       (loadFestivalEntries festivalEntries
         (loadFoodEntries foodEntries
           (loadSlangEntries slangEntries st)))"

text \<open>The four non-fallback accessors.  A throw inside \<open>try\<close> is caught and gives the \<open>catch\<close> value.\<close>

definition getSlangInfo :: "Store \<Rightarrow> string \<Rightarrow> SlangInfo option" where
  "getSlangInfo st term =
     (case (if \<not> isLoaded st then Inl DatabaseError
            else Inr (map_of (slangData st) (toLowerCase term))) of
        Inl error \<Rightarrow> None
      | Inr result \<Rightarrow> result)"

definition getFestivalInfo :: "Store \<Rightarrow> string \<Rightarrow> FestivalInfo option" where
  "getFestivalInfo st festival =
     (case (if \<not> isLoaded st then Inl DatabaseError
            else Inr (map_of (festivalData st) (toLowerCase festival))) of
        Inl error \<Rightarrow> None
      | Inr result \<Rightarrow> result)"

definition getEmotionFoodMapping :: "Store \<Rightarrow> string \<Rightarrow> EmotionFoodMapping option" where
  "getEmotionFoodMapping st emotion =
     (case (if \<not> isLoaded st then Inl DatabaseError
            else Inr (map_of (emotionFoodData st) (toLowerCase emotion))) of
        Inl error \<Rightarrow> None
      | Inr result \<Rightarrow> result)"

record FoodPreferences =
  pref_dietary :: "string option"
  pref_spiceLevel :: "string option"
  pref_timeOfDay :: "string option"

text \<open>
  \<open>spiceLevels[key]\<close>: the rank of the four levels.  Any other key, the absent
  (\<open>undefined\<close>) one too, reads \<open>undefined\<close> or a property inherited from
  \<open>Object.prototype\<close>; either converts to \<open>NaN\<close> in \<open><\<close>, which is then false.  \<open>None\<close>
  stands for these values.
\<close>

definition spiceLevels :: "string \<Rightarrow> nat option" where
  "spiceLevels key =
     map_of [(''low'', 1), (''medium'', 2), (''high'', 3), (''extreme'', 4)] key"

definition userSpiceLevel :: "FoodPreferences \<Rightarrow> nat option" where
  "userSpiceLevel preferences =
     (case pref_spiceLevel preferences of None \<Rightarrow> None | Some level \<Rightarrow> spiceLevels level)"

definition jsLess :: "nat option \<Rightarrow> nat option \<Rightarrow> bool" where
  "jsLess a b = (case (a, b) of (Some x, Some y) \<Rightarrow> x < y | _ \<Rightarrow> False)"

text \<open>
  \<open>timeMapping[key] || []\<close> followed by \<open>.some(...)\<close>.  The lower-cased keys
  \<open>constructor\<close> and \<open>__proto__\<close> read inherited properties that are truthy and have no
  \<open>some\<close> method, so the call throws a \<open>TypeError\<close>.
\<close>

definition timeMapping :: "string \<Rightarrow> jsError + string list" where
  "timeMapping key =
     (if key = ''morning'' then Inr [''Morning'', ''morning'']
      else if key = ''afternoon'' then Inr [''Lunch'', ''lunch'']
      else if key = ''evening'' then Inr [''Evening'', ''evening'', ''Any'', ''any'']
      else if key = ''night'' then Inr [''Evening'', ''evening'', ''Any'', ''any'']
      else if key = ''constructor'' \<or> key = ''__proto__'' then Inl TypeError
      else Inr [])"

definition dietaryVerdict :: "FoodPreferences \<Rightarrow> FoodInfo \<Rightarrow> bool option" where
  "dietaryVerdict preferences food =
     (if pref_dietary preferences = Some ''veg''
         \<and> includesStr (toLowerCase (food_name food)) ''chicken'' then Some False
      else if pref_dietary preferences = Some ''non-veg''
         \<and> \<not> includesStr (toLowerCase (food_name food)) ''chicken''
      then Some (includesStr (toLowerCase (food_name food)) ''chicken'')
      else None)"

definition timeVerdict :: "FoodPreferences \<Rightarrow> FoodInfo \<Rightarrow> jsError + bool" where
  "timeVerdict preferences food =
     (case pref_timeOfDay preferences of
        None \<Rightarrow> Inr True
      | Some timeOfDay \<Rightarrow>
          if timeOfDay = [] then Inr True
          else (case timeMapping (toLowerCase timeOfDay) of
                  Inl error \<Rightarrow> Inl error
                | Inr validTimes \<Rightarrow>
                    if \<not> list_ex (\<lambda>time. includesStr (toLowerCase (food_bestTime food))
                                              (toLowerCase time)) validTimes
                    then Inr False else Inr True))"

text \<open>The callback of \<open>cityFoods.filter\<close>: the verdict on one dish, or the error it throws.\<close>

definition foodFilter :: "FoodPreferences \<Rightarrow> FoodInfo \<Rightarrow> jsError + bool" where
  "foodFilter preferences food =
     (case dietaryVerdict preferences food of
        Some verdict \<Rightarrow> Inr verdict
      | None \<Rightarrow>
          if jsLess (userSpiceLevel preferences) (spiceLevels (food_spiceLevel food))
          then Inr False
          else timeVerdict preferences food)"

text \<open>\<open>Array.prototype.filter\<close> with a callback that may throw: the first throw ends the scan.\<close>

fun filterThrowing :: "('a \<Rightarrow> jsError + bool) \<Rightarrow> 'a list \<Rightarrow> jsError + 'a list" where
  "filterThrowing p [] = Inr []"
| "filterThrowing p (x # xs) =
     (case p x of
        Inl error \<Rightarrow> Inl error
      | Inr keep \<Rightarrow>
          (case filterThrowing p xs of
             Inl error \<Rightarrow> Inl error
           | Inr rest \<Rightarrow> Inr (if keep then x # rest else rest)))"

definition getFoodInfo :: "Store \<Rightarrow> string \<Rightarrow> FoodPreferences \<Rightarrow> FoodInfo list" where
  "getFoodInfo st city preferences =
     (case (if \<not> isLoaded st then Inl DatabaseError
            else filterThrowing (foodFilter preferences)
                   (case map_of (foodData st) (toLowerCase city) of
                      None \<Rightarrow> [] | Some cityFoods \<Rightarrow> cityFoods)) of
        Inl error \<Rightarrow> []
      | Inr result \<Rightarrow> result)"

text \<open>
  The value an accessor hands back, as a JavaScript value: \<open>null\<close>, a record, or an array
  of dishes.
\<close>

datatype jsValue =
    Null
  | SlangValue SlangInfo
  | FoodArray "FoodInfo list"
  | FestivalValue FestivalInfo
  | MappingValue EmotionFoodMapping

definition slangResult :: "Store \<Rightarrow> string \<Rightarrow> jsValue" where
  "slangResult st term = (case getSlangInfo st term of None \<Rightarrow> Null | Some r \<Rightarrow> SlangValue r)"

definition foodResult :: "Store \<Rightarrow> string \<Rightarrow> FoodPreferences \<Rightarrow> jsValue" where
  "foodResult st city preferences = FoodArray (getFoodInfo st city preferences)"

definition festivalResult :: "Store \<Rightarrow> string \<Rightarrow> jsValue" where
  "festivalResult st festival =
     (case getFestivalInfo st festival of None \<Rightarrow> Null | Some r \<Rightarrow> FestivalValue r)"

definition mappingResult :: "Store \<Rightarrow> string \<Rightarrow> jsValue" where
  "mappingResult st emotion =
     (case getEmotionFoodMapping st emotion of None \<Rightarrow> Null | Some r \<Rightarrow> MappingValue r)"

text \<open>
  The dish filter the way claim C9 words it for a missing or unknown spice level: only the
  dietary and the time-of-day conditions decide.
\<close>

definition dietaryAndTimeFilter :: "FoodPreferences \<Rightarrow> FoodInfo \<Rightarrow> jsError + bool" where
  "dietaryAndTimeFilter preferences food =
     (case dietaryVerdict preferences food of
        Some verdict \<Rightarrow> Inr verdict
      | None \<Rightarrow> timeVerdict preferences food)"

definition dishesByDietAndTime :: "Store \<Rightarrow> string \<Rightarrow> FoodPreferences \<Rightarrow> FoodInfo list" where
  "dishesByDietAndTime st city preferences =
     (case (if \<not> isLoaded st then Inl DatabaseError
            else filterThrowing (dietaryAndTimeFilter preferences)
                   (case map_of (foodData st) (toLowerCase city) of
                      None \<Rightarrow> [] | Some cityFoods \<Rightarrow> cityFoods)) of
        Inl error \<Rightarrow> []
      | Inr result \<Rightarrow> result)"

text \<open>The store that holds the hardcoded records only, marked as loaded.\<close>

definition hardcodedStore :: Store where
  "hardcodedStore = (loadHardcodedData emptyStore)\<lparr>isLoaded := True\<rparr>"

section \<open>ProductMdParser\<close>

subsection \<open>String splitting and the regular expressions of the parser\<close>

text \<open>
  Each regular expression of the source is written out as the function that computes its
  leftmost match.  The case-insensitive flag compares characters after upper-casing:
  \<open>startsWithCI s p\<close> holds when the literal \<open>p\<close> matches at the start of \<open>s\<close>
  under that flag.
\<close>

fun startsWithCI :: "string \<Rightarrow> string \<Rightarrow> bool" where
  "startsWithCI s [] = True"
| "startsWithCI [] (p # ps) = False"
| "startsWithCI (c # cs) (p # ps) =
     (if toUpperChar c = toUpperChar p then startsWithCI cs ps else False)"

text \<open>\<open>s.split(sep)\<close> for a non-empty separator.\<close>

function splitFrom :: "string \<Rightarrow> string \<Rightarrow> string \<Rightarrow> string list" where
  "splitFrom sep current [] = [current]"
| "splitFrom sep current (c # cs) =
     (if sep \<noteq> [] \<and> prefix sep (c # cs)
      then current # splitFrom sep [] (drop (length sep) (c # cs))
      else splitFrom sep (current @ [c]) cs)"
  by pat_completeness auto
termination
  by (relation "measure (\<lambda>(sep, current, rest). length rest)") (auto simp: neq_Nil_conv)

definition split :: "string \<Rightarrow> string \<Rightarrow> string list" where
  "split s sep = splitFrom sep [] s"

definition newline :: char where
  "newline = CHR 0x0A"

definition dquote :: char where
  "dquote = CHR 0x22"

definition arrow :: string where
  "arrow = [CHR 0xE2, CHR 0x86, CHR 0x92]"

text \<open>\<open>content.split('\n').map(line => line.trim()).filter(line => line)\<close>\<close>

definition trimmedLines :: "string \<Rightarrow> string list" where
  "trimmedLines content = filter (\<lambda>line. line \<noteq> []) (map trim (split content [newline]))"

text \<open>
  \<open>/MARKER([\s\S]*?)(?=STOP|$)/\<close>: the text after the first \<open>MARKER\<close>, up to the next
  \<open>STOP\<close> or to the end.
\<close>

fun afterFirst :: "string \<Rightarrow> string \<Rightarrow> string option" where
  "afterFirst marker [] = (if marker = [] then Some [] else None)"
| "afterFirst marker (c # cs) =
     (if prefix marker (c # cs) then Some (drop (length marker) (c # cs))
      else afterFirst marker cs)"

fun upTo :: "string \<Rightarrow> string \<Rightarrow> string" where
  "upTo stop [] = []"
| "upTo stop (c # cs) = (if prefix stop (c # cs) then [] else c # upTo stop cs)"

definition sectionBetween :: "string \<Rightarrow> string \<Rightarrow> string \<Rightarrow> string option" where
  "sectionBetween marker stop content = map_option (upTo stop) (afterFirst marker content)"

text \<open>The emoji of the section headers, as UTF-8.\<close>

definition emojiSpeaking :: string where
  "emojiSpeaking = [CHR 0xF0, CHR 0x9F, CHR 0x97, CHR 0xA3, CHR 0xEF, CHR 0xB8, CHR 0x8F]"

definition emojiPoultryLeg :: string where
  "emojiPoultryLeg = [CHR 0xF0, CHR 0x9F, CHR 0x8D, CHR 0x97]"

definition emojiPartyPopper :: string where
  "emojiPartyPopper = [CHR 0xF0, CHR 0x9F, CHR 0x8E, CHR 0x89]"

definition emojiHeart :: string where
  "emojiHeart = [CHR 0xE2, CHR 0x9D, CHR 0xA4, CHR 0xEF, CHR 0xB8, CHR 0x8F]"

definition emojiControlKnobs :: string where
  "emojiControlKnobs = [CHR 0xF0, CHR 0x9F, CHR 0x8E, CHR 0x9B, CHR 0xEF, CHR 0xB8, CHR 0x8F]"

record Sections =
  sec_slang :: "string option"
  sec_food :: "string option"
  sec_festivals :: "string option"
  sec_emotions :: "string option"

definition extractSections :: "string \<Rightarrow> Sections" where
  "extractSections content =
     \<lparr>sec_slang = sectionBetween (emojiSpeaking @ '' Andhra Slang Intelligence'')
                    emojiPoultryLeg content,
      sec_food = sectionBetween (emojiPoultryLeg @ '' Andhra Street Food Culture'')
                   emojiPartyPopper content,
      sec_festivals = sectionBetween (emojiPartyPopper @ '' Festivals of Andhra Pradesh'')
                        emojiHeart content,
      sec_emotions = sectionBetween (emojiHeart @ '' Emotional Food Mapping'')
                       emojiControlKnobs content\<rparr>"

text \<open>\<open>sections.x || ''\<close>\<close>

definition orEmpty :: "string option \<Rightarrow> string" where
  "orEmpty s = (case s of None \<Rightarrow> [] | Some t \<Rightarrow> t)"

text \<open>\<open>content.match(/"([^"]+)"/g)\<close> with the quotes removed from every match.\<close>

function quotedTerms :: "string \<Rightarrow> string list" where
  "quotedTerms [] = []"
| "quotedTerms (c # cs) =
     (if c = dquote \<and> takeWhile (\<lambda>d. d \<noteq> dquote) cs \<noteq> []
         \<and> dropWhile (\<lambda>d. d \<noteq> dquote) cs \<noteq> []
      then takeWhile (\<lambda>d. d \<noteq> dquote) cs # quotedTerms (tl (dropWhile (\<lambda>d. d \<noteq> dquote) cs))
      else quotedTerms cs)"
  by pat_completeness auto
termination
proof (relation "measure length")
  fix c :: char and cs :: string
  have "length (tl (dropWhile (\<lambda>d. d \<noteq> dquote) cs)) \<le> length (dropWhile (\<lambda>d. d \<noteq> dquote) cs)"
    by simp
  also have "\<dots> \<le> length cs"
    by (rule length_dropWhile_le)
  finally show "(tl (dropWhile (\<lambda>d. d \<noteq> dquote) cs), c # cs) \<in> measure length"
    by simp
qed simp_all

text \<open>
  \<open>new RegExp('"' + escapeRegex(term) + '"([\s\S]*?)(?="[^"]*"|$)', 'i')\<close>: the text after
  the first case-insensitive occurrence of the quoted term, up to the next quote that is
  followed by a further quote, or to the end.  \<open>escapeRegex\<close> makes the term literal.
\<close>

fun afterFirstCI :: "string \<Rightarrow> string \<Rightarrow> string option" where
  "afterFirstCI marker [] = (if marker = [] then Some [] else None)"
| "afterFirstCI marker (c # cs) =
     (if startsWithCI (c # cs) marker then Some (drop (length marker) (c # cs))
      else afterFirstCI marker cs)"

fun untilQuoted :: "string \<Rightarrow> string" where
  "untilQuoted [] = []"
| "untilQuoted (c # cs) = (if c = dquote \<and> dquote \<in> set cs then [] else c # untilQuoted cs)"

definition termBlock :: "string \<Rightarrow> string \<Rightarrow> string option" where
  "termBlock content term =
     map_option untilQuoted (afterFirstCI ([dquote] @ term @ [dquote]) content)"

text \<open>
  \<open>\s*([^\n]+)\<close> and \<open>\s+([^\n]+)\<close> at a fixed position: the white space is taken
  greedily; when it runs to the end of the text, the engine backtracks to the last character
  of it that is no line feed.
\<close>

definition valueAfterSpaces :: "string \<Rightarrow> string option" where
  "valueAfterSpaces rest =
     (if dropWhile isSpace rest \<noteq> []
      then Some (takeWhile (\<lambda>c. c \<noteq> newline) (dropWhile isSpace rest))
      else (case filter (\<lambda>c. c \<noteq> newline) (rev (takeWhile isSpace rest)) of
              [] \<Rightarrow> None
            | c # _ \<Rightarrow> Some [c]))"

definition valueAfterSpaces1 :: "string \<Rightarrow> string option" where
  "valueAfterSpaces1 rest =
     (if takeWhile isSpace rest = [] then None
      else if dropWhile isSpace rest \<noteq> []
      then Some (takeWhile (\<lambda>c. c \<noteq> newline) (dropWhile isSpace rest))
      else (case filter (\<lambda>c. c \<noteq> newline) (rev (tl (takeWhile isSpace rest))) of
              [] \<Rightarrow> None
            | c # _ \<Rightarrow> Some [c]))"

text \<open>
  \<open>text.match(/(?:L1|L2)<value>/i)\<close>: the capture of the leftmost position at which one of
  the labels, tried in order, and then the value pattern match.
\<close>

definition labelHere :: "string list \<Rightarrow> (string \<Rightarrow> string option) \<Rightarrow> string \<Rightarrow> string option" where
  "labelHere labels valuePattern s =
     (case List.map_filter
             (\<lambda>l. if startsWithCI s l then valuePattern (drop (length l) s) else None) labels of
        [] \<Rightarrow> None
      | v # _ \<Rightarrow> Some v)"

fun matchLabelled :: "string list \<Rightarrow> (string \<Rightarrow> string option) \<Rightarrow> string \<Rightarrow> string option" where
  "matchLabelled labels valuePattern [] = labelHere labels valuePattern []"
| "matchLabelled labels valuePattern (c # cs) =
     (case labelHere labels valuePattern (c # cs) of
        Some v \<Rightarrow> Some v
      | None \<Rightarrow> matchLabelled labels valuePattern cs)"

text \<open>\<open>m ? m[1].trim() : ''\<close>\<close>

definition trimmedCapture :: "string option \<Rightarrow> string" where
  "trimmedCapture m = (case m of None \<Rightarrow> [] | Some v \<Rightarrow> trim v)"

subsection \<open>Slang\<close>

definition extractLiteralMeaning :: "string \<Rightarrow> string" where
  "extractLiteralMeaning termContent =
     trimmedCapture (matchLabelled [''Literal:'', ''Meaning:''] valueAfterSpaces termContent)"

definition extractEmotionalIntent :: "string \<Rightarrow> string" where
  "extractEmotionalIntent termContent =
     trimmedCapture
       (matchLabelled [''Emotional meaning:'', ''Emotion:''] valueAfterSpaces termContent)"

definition extractSocialAppropriateness :: "string \<Rightarrow> string" where
  "extractSocialAppropriateness termContent =
     (let usage = trimmedCapture (matchLabelled [''Usage:'', ''Use:''] valueAfterSpaces termContent);
          withAvoid =
            (case matchLabelled [''Avoid''] valueAfterSpaces1 termContent of
               None \<Rightarrow> usage
             | Some avoid \<Rightarrow> usage @ (if usage \<noteq> [] then ''; '' else []) @ ''Avoid '' @ trim avoid)
      in if withAvoid = [] then ''General use'' else withAvoid)"

definition extractFormalityLevel :: "string \<Rightarrow> string" where
  "extractFormalityLevel termContent =
     (if includesStr (toLowerCase termContent) ''formal'' then ''formal'' else ''informal'')"

definition parseSlangTerm :: "string \<Rightarrow> string \<Rightarrow> SlangInfo option" where
  "parseSlangTerm content term =
     (case termBlock content term of
        None \<Rightarrow> None
      | Some termContent \<Rightarrow>
          if extractLiteralMeaning termContent = [] \<or> extractEmotionalIntent termContent = []
          then None
          else Some \<lparr>slang_term = term,
                      slang_literalMeaning = extractLiteralMeaning termContent,
                      slang_emotionalIntent = extractEmotionalIntent termContent,
                      slang_socialAppropriateness = extractSocialAppropriateness termContent,
                      slang_formalityLevel = extractFormalityLevel termContent,
                      slang_regionalVariations = Some []\<rparr>)"

definition parseSlangSection :: "string \<Rightarrow> SlangInfo list" where
  "parseSlangSection content =
     List.map_filter
       (\<lambda>term. case parseSlangTerm content term of
                  None \<Rightarrow> None
                | Some slangInfo \<Rightarrow> if validateSlangInfo slangInfo then Some slangInfo else None)
       (quotedTerms content)"

subsection \<open>Food\<close>

definition isAsciiLetter :: "char \<Rightarrow> bool" where
  "isAsciiLetter c =
     (c \<in> set ''ABCDEFGHIJKLMNOPQRSTUVWXYZabcdefghijklmnopqrstuvwxyz'')"

text \<open>\<open>/^([A-Za-z\s]+)(?:\s*\([^)]+\))?/\<close>: the first group is the longest run of letters and white space at the start.\<close>

definition extractCityName :: "string \<Rightarrow> string option" where
  "extractCityName cityLine =
     (if takeWhile (\<lambda>c. isAsciiLetter c \<or> isSpace c) cityLine = [] then None
      else Some (trim (takeWhile (\<lambda>c. isAsciiLetter c \<or> isSpace c) cityLine)))"

definition parseSpiceLevel :: "string \<Rightarrow> string" where
  "parseSpiceLevel description =
     (if includesStr (toLowerCase description) ''extreme'' then ''extreme''
      else if includesStr (toLowerCase description) ''high''
              \<or> includesStr (toLowerCase description) ''spicy'' then ''high''
      else if includesStr (toLowerCase description) ''low''
              \<or> includesStr (toLowerCase description) ''mild'' then ''low''
      else ''medium'')"

definition parseBestTime :: "string \<Rightarrow> string" where
  "parseBestTime description =
     (if includesStr (toLowerCase description) ''breakfast''
         \<or> includesStr (toLowerCase description) ''morning'' then ''Morning''
      else if includesStr (toLowerCase description) ''lunch'' then ''Lunch''
      else if includesStr (toLowerCase description) ''evening'' then ''Evening''
      else ''Evening'')"

definition parseFoodLine :: "string \<Rightarrow> string \<Rightarrow> FoodInfo option" where
  "parseFoodLine line city =
     (case split line arrow of
        [part0, part1] \<Rightarrow>
          Some \<lparr>food_name = trim part0, food_city = city,
                food_spiceLevel = parseSpiceLevel (trim part1),
                food_bestTime = parseBestTime (trim part1),
                food_description = trim part1,
                food_culturalSignificance = Some (''Traditional '' @ city @ '' specialty'')\<rparr>
      | _ \<Rightarrow> None)"

text \<open>The loop over the lines; \<open>currentCity\<close> is carried along.\<close>

fun foodLoop :: "string list \<Rightarrow> string \<Rightarrow> FoodInfo list" where
  "foodLoop [] currentCity = []"
| "foodLoop (line # rest) currentCity =
     (if includesStr line emojiPoultryLeg \<or> includesStr line ''Food Principles''
         \<or> includesStr line ''City-wise''
      then foodLoop rest currentCity
      else if \<not> includesStr line arrow
              \<and> (includesStr line ''Visakhapatnam'' \<or> includesStr line ''Vijayawada''
                  \<or> includesStr line ''Guntur'' \<or> includesStr line ''Tirupati'')
      then foodLoop rest (orEmpty (extractCityName line))
      else if includesStr line arrow \<and> currentCity \<noteq> []
      then (case parseFoodLine line currentCity of
              None \<Rightarrow> foodLoop rest currentCity
            | Some foodInfo \<Rightarrow>
                if validateFoodInfo foodInfo then foodInfo # foodLoop rest currentCity
                else foodLoop rest currentCity)
      else foodLoop rest currentCity)"

definition parseFoodSection :: "string \<Rightarrow> FoodInfo list" where
  "parseFoodSection content = foodLoop (trimmedLines content) []"

subsection \<open>Festivals\<close>

definition isUpperLetter :: "char \<Rightarrow> bool" where
  "isUpperLetter c = (c \<in> set ''ABCDEFGHIJKLMNOPQRSTUVWXYZ'')"

definition isLowerLetter :: "char \<Rightarrow> bool" where
  "isLowerLetter c = (c \<in> set ''abcdefghijklmnopqrstuvwxyz'')"

text \<open>\<open>/^[A-Z][a-z]+(\s+[A-Z][a-z]+)*$/\<close>\<close>

function isFestivalName :: "string \<Rightarrow> bool" where
  "isFestivalName [] = False"
| "isFestivalName (c # cs) =
     (if isUpperLetter c \<and> takeWhile isLowerLetter cs \<noteq> []
      then (if dropWhile isLowerLetter cs = [] then True
            else if takeWhile isSpace (dropWhile isLowerLetter cs) = [] then False
            else isFestivalName (dropWhile isSpace (dropWhile isLowerLetter cs)))
      else False)"
  by pat_completeness auto
termination
  by (relation "measure length")
    (auto simp: less_Suc_eq_le intro: le_trans [OF length_dropWhile_le length_dropWhile_le])

text \<open>The pending festival: the fields of \<open>pending\<close>, \<open>None\<close> while unset.\<close>

record FestivalData =
  fd_culturalMeaning :: "string option"
  fd_associatedFoods :: "string list option"
  fd_emotionalTone :: "string option"
  fd_foodSymbolism :: "string option"

definition emptyFestivalData :: FestivalData where
  "emptyFestivalData = \<lparr>fd_culturalMeaning = None, fd_associatedFoods = None,
                         fd_emotionalTone = None, fd_foodSymbolism = None\<rparr>"

text \<open>Truthiness of an optional string, and \<open>x || fallback\<close>.\<close>

definition truthy :: "string option \<Rightarrow> bool" where
  "truthy x = (case x of None \<Rightarrow> False | Some s \<Rightarrow> s \<noteq> [])"

definition orElse :: "string option \<Rightarrow> string \<Rightarrow> string" where
  "orElse x fallback = (case x of None \<Rightarrow> fallback | Some s \<Rightarrow> if s = [] then fallback else s)"

text \<open>
  The flush of the pending festival: the record is built when the name, the cultural meaning
  and the food list are set, and kept when it validates.
\<close>

definition flushFestival :: "string \<Rightarrow> FestivalData \<Rightarrow> FestivalInfo list" where
  "flushFestival currentFestival pending =
     (case fd_associatedFoods pending of
        None \<Rightarrow> []
      | Some foods \<Rightarrow>
          if currentFestival \<noteq> [] \<and> truthy (fd_culturalMeaning pending)
          then (let festival =
                      \<lparr>festival_name = currentFestival,
                       festival_culturalMeaning = orElse (fd_culturalMeaning pending) [],
                       festival_associatedFoods = foods,
                       festival_foodSymbolism =
                         orElse (fd_foodSymbolism pending)
                           (''Traditional foods representing the spirit of '' @ currentFestival),
                       festival_emotionalTone =
                         orElse (fd_emotionalTone pending) ''Celebratory'',
                       festival_regionalVariations = None\<rparr>
                in if validateFestivalInfo festival then [festival] else [])
          else [])"

text \<open>\<open>line.replace(/^foods?:\s*/i, '')\<close>\<close>

definition stripFoodsLabel :: "string \<Rightarrow> string" where
  "stripFoodsLabel line =
     (if startsWithCI line ''foods:'' then dropWhile isSpace (drop 6 line)
      else if startsWithCI line ''food:'' then dropWhile isSpace (drop 5 line)
      else line)"

text \<open>
  \<open>line.replace(/.*emotional tone:\s*/i, '')\<close>.  The dot stops at a line terminator (a
  carriage return inside the line), so the match starts at the first position from which
  the label is reached without crossing one, and the greedy star takes the last label there.
\<close>

definition isLineTerminator :: "char \<Rightarrow> bool" where
  "isLineTerminator c = (c = CHR 0x0A \<or> c = CHR 0x0D)"

fun afterLastTone :: "string \<Rightarrow> string option" where
  "afterLastTone [] = None"
| "afterLastTone (c # cs) =
     (case (if isLineTerminator c then None else afterLastTone cs) of
        Some rest \<Rightarrow> Some rest
      | None \<Rightarrow>
          if startsWithCI (c # cs) ''emotional tone:'' then Some (drop 15 (c # cs)) else None)"

fun stripEmotionalTone :: "string \<Rightarrow> string" where
  "stripEmotionalTone [] = []"
| "stripEmotionalTone (c # cs) =
     (case afterLastTone (c # cs) of
        Some rest \<Rightarrow> dropWhile isSpace rest
      | None \<Rightarrow> c # stripEmotionalTone cs)"

definition festivalDetail :: "string \<Rightarrow> FestivalData \<Rightarrow> FestivalData" where
  "festivalDetail line pending =
     (if includesStr (toLowerCase line) ''festival'' \<or> includesStr (toLowerCase line) ''worship''
         \<or> includesStr (toLowerCase line) ''celebration''
      then pending\<lparr>fd_culturalMeaning := Some line\<rparr>
      else if startsWith (toLowerCase line) ''foods:'' \<or> startsWith (toLowerCase line) ''food:''
      then pending\<lparr>fd_associatedFoods := Some (map trim (split (stripFoodsLabel line) '',''))\<rparr>
      else if includesStr (toLowerCase line) ''emotional tone:''
      then pending\<lparr>fd_emotionalTone := Some (stripEmotionalTone line)\<rparr>
      else if includesStr (toLowerCase line) ''symbolizes''
              \<or> includesStr (toLowerCase line) ''represents''
      then pending\<lparr>fd_foodSymbolism := Some line\<rparr>
      else pending)"

fun festivalLoop :: "string list \<Rightarrow> string \<Rightarrow> FestivalData \<Rightarrow> FestivalInfo list" where
  "festivalLoop [] currentFestival pending = flushFestival currentFestival pending"
| "festivalLoop (line # rest) currentFestival pending =
     (if includesStr line emojiPartyPopper \<or> includesStr line ''Festivals''
      then festivalLoop rest currentFestival pending
      else if isFestivalName line \<and> \<not> includesStr line '':''
      then flushFestival currentFestival pending @ festivalLoop rest line emptyFestivalData
      else if currentFestival \<noteq> []
      then festivalLoop rest currentFestival (festivalDetail line pending)
      else festivalLoop rest currentFestival pending)"

definition parseFestivalSection :: "string \<Rightarrow> FestivalInfo list" where
  "parseFestivalSection content = festivalLoop (trimmedLines content) [] emptyFestivalData"

subsection \<open>Emotions\<close>

text \<open>\<open>/^\(([^)]+)\)/\<close> and \<open>/\(([^)]+)\)/\<close>\<close>

definition parenAtStart :: "string \<Rightarrow> string option" where
  "parenAtStart s =
     (case s of
        [] \<Rightarrow> None
      | c # cs \<Rightarrow>
          if c = CHR ''('' \<and> takeWhile (\<lambda>d. d \<noteq> CHR '')'') cs \<noteq> []
             \<and> dropWhile (\<lambda>d. d \<noteq> CHR '')'') cs \<noteq> []
          then Some (takeWhile (\<lambda>d. d \<noteq> CHR '')'') cs) else None)"

fun parenAnywhere :: "string \<Rightarrow> string option" where
  "parenAnywhere [] = None"
| "parenAnywhere (c # cs) =
     (case parenAtStart (c # cs) of Some body \<Rightarrow> Some body | None \<Rightarrow> parenAnywhere cs)"

definition parseHomeVsStreet :: "string \<Rightarrow> string" where
  "parseHomeVsStreet recommendedFood =
     (if includesStr (toLowerCase recommendedFood) ''coffee''
         \<or> includesStr (toLowerCase recommendedFood) ''punugulu'' then ''street''
      else if includesStr (toLowerCase recommendedFood) ''pappu''
              \<or> includesStr (toLowerCase recommendedFood) ''rasam''
              \<or> includesStr (toLowerCase recommendedFood) ''curd rice'' then ''home''
      else ''both'')"

definition parseEmotionalLogic :: "string \<Rightarrow> string option \<Rightarrow> string \<Rightarrow> string \<Rightarrow> string" where
  "parseEmotionalLogic foodLine nextLine recommendedFood emotion =
     (let fromNext = (case nextLine of
                        None \<Rightarrow> []
                      | Some l \<Rightarrow> trimmedCapture (parenAtStart l));
          inline = (if fromNext = [] then trimmedCapture (parenAnywhere foodLine) else fromNext)
      in if inline = []
         then recommendedFood @ '' is culturally appropriate for '' @ emotion @ '' feelings''
         else inline)"

definition parseEmotionLine :: "string \<Rightarrow> string option \<Rightarrow> EmotionFoodMapping option" where
  "parseEmotionLine line nextLine =
     (case split line arrow of
        [part0, part1] \<Rightarrow>
          (let emotion = toLowerCase (trim part0);
               foodLine = trim part1;
               recommendedFood = trim (case split foodLine ''('' of [] \<Rightarrow> [] | first # _ \<Rightarrow> first)
           in Some \<lparr>mapping_emotion = emotion,
                     mapping_recommendedFood = recommendedFood,
                     mapping_emotionalLogic =
                       parseEmotionalLogic foodLine nextLine recommendedFood emotion,
                     mapping_homeVsStreet = parseHomeVsStreet recommendedFood\<rparr>)
      | _ \<Rightarrow> None)"

fun emotionLoop :: "string list \<Rightarrow> EmotionFoodMapping list" where
  "emotionLoop [] = []"
| "emotionLoop (line # rest) =
     (if includesStr line emojiHeart \<or> includesStr line ''Emotional''
         \<or> includesStr line ''Core Belief'' \<or> includesStr line ''Mood''
      then emotionLoop rest
      else if includesStr line arrow
      then (case parseEmotionLine line (case rest of [] \<Rightarrow> None | l # _ \<Rightarrow> Some l) of
              None \<Rightarrow> emotionLoop rest
            | Some mapping \<Rightarrow>
                if validateEmotionFoodMapping mapping then mapping # emotionLoop rest
                else emotionLoop rest)
      else emotionLoop rest)"

definition parseEmotionSection :: "string \<Rightarrow> EmotionFoodMapping list" where
  "parseEmotionSection content = emotionLoop (trimmedLines content)"

subsection \<open>The whole document\<close>

definition parseContent :: "string \<Rightarrow> ParsedCulturalData" where
  "parseContent content =
     (let sections = extractSections content in
      \<lparr>parsed_slang = parseSlangSection (orEmpty (sec_slang sections)),
       parsed_food = parseFoodSection (orEmpty (sec_food sections)),
       parsed_festivals = parseFestivalSection (orEmpty (sec_festivals sections)),
       parsed_emotions = parseEmotionSection (orEmpty (sec_emotions sections))\<rparr>)"

text \<open>
  \<open>parseProductMd\<close> reads the file; \<open>None\<close> is a file that cannot be read, for which the
  source throws.
\<close>

definition parseProductMd :: "string option \<Rightarrow> jsError + ParsedCulturalData" where
  "parseProductMd file =
     (case file of None \<Rightarrow> Inl ReadError | Some content \<Rightarrow> Inr (parseContent content))"

subsection \<open>Loading the store\<close>

text \<open>
  \<open>loadCulturalData\<close>: the parsed records are loaded first and validated afterwards; when
  the validation fails, or when parsing throws, the hardcoded records are loaded into the
  maps as they are at that point.
\<close>

definition loadCulturalData :: "string option \<Rightarrow> Store \<Rightarrow> Store" where
  "loadCulturalData file st =
     (case parseProductMd file of
        Inl error \<Rightarrow> loadHardcodedData st
      | Inr parsedData \<Rightarrow>
          if \<not> isValidData parsedData
          then loadHardcodedData (loadFromParsedData parsedData st)
          else loadFromParsedData parsedData st)\<lparr>isLoaded := True\<rparr>"

definition newCulturalDatabase :: "string option \<Rightarrow> Store" where
  "newCulturalDatabase file = loadCulturalData file emptyStore"

subsection \<open>Sample documents\<close>

text \<open>
  A small document with one entry in each of the four sections, its four sections, and a
  document that has the food section only (a city header and one dish line).
\<close>

definition sampleSlangSection :: string where
  "sampleSlangSection =
     [newline, dquote] @ ''Lite Teesko'' @ [dquote, newline] @ ''Literal: Take it easy''
     @ [newline] @ ''Emotion: Comfort'' @ [newline]"

definition sampleFoodSection :: string where
  "sampleFoodSection =
     [newline] @ ''Guntur'' @ [newline] @ ''Mirchi Bajji '' @ arrow @ '' extreme spice''
     @ [newline]"

definition sampleFestivalSection :: string where
  "sampleFestivalSection =
     [newline] @ ''Ugadi'' @ [newline] @ ''New year festival'' @ [newline]
     @ ''Foods: Pachadi'' @ [newline]"

definition sampleEmotionSection :: string where
  "sampleEmotionSection = [newline] @ ''Sad '' @ arrow @ '' Pappu'' @ [newline]"

definition sampleDocument :: string where
  "sampleDocument =
     emojiSpeaking @ '' Andhra Slang Intelligence'' @ sampleSlangSection
     @ emojiPoultryLeg @ '' Andhra Street Food Culture'' @ sampleFoodSection
     @ emojiPartyPopper @ '' Festivals of Andhra Pradesh'' @ sampleFestivalSection
     @ emojiHeart @ '' Emotional Food Mapping'' @ sampleEmotionSection"

definition foodOnlyDocument :: string where
  "foodOnlyDocument =
     emojiPoultryLeg @ '' Andhra Street Food Culture'' @ [newline] @ ''Visakhapatnam (Vizag)''
     @ [newline] @ ''Punugulu '' @ arrow @ '' medium spice''"

definition anyPreferences :: FoodPreferences where
  "anyPreferences =
     \<lparr>pref_dietary = Some ''any'', pref_spiceLevel = Some ''extreme'', pref_timeOfDay = None\<rparr>"

section \<open>ResponseFormatter\<close>

datatype Region = Coastal | Guntur | Rayalaseema

datatype Category = Slang | Food | Festival | Emotion

record CulturalResponse =
  resp_content :: string
  resp_teluguWords :: "string list"
  resp_culturalTone :: string
  resp_region :: "Region option"
  resp_category :: Category

text \<open>
  \<open>Math.floor(Math.random() * list.length)\<close> is some index below the length of the list.
  The two draws of \<open>formatResponse\<close> are parameters of the model, reduced modulo the length.
\<close>

record Draws =
  draw_greeting :: nat
  draw_closing :: nat

definition pick :: "string list \<Rightarrow> nat \<Rightarrow> string" where
  "pick list draw = list ! (draw mod length list)"

definition culturalGreetings :: "Region \<Rightarrow> string list" where
  "culturalGreetings r =
     (case r of
        Coastal \<Rightarrow> [''Trust me'', ''You know what'', ''Let me tell you'', ''Honestly speaking'']
      | Guntur \<Rightarrow> [''Pakka guarantee'', ''Believe me'', ''No doubt about it'',
                   ''Fire ga cheppali ante'']
      | Rayalaseema \<Rightarrow> [''Simple ga cheppali ante'', ''Traditional ga'', ''Straight forward ga'',
                        ''Honestly''])"

definition culturalClosings :: "Category \<Rightarrow> string list" where
  "culturalClosings c =
     (case c of
        Slang \<Rightarrow> [''That's how we express ourselves in Andhra culture!'',
                  ''This is authentic Andhra way of speaking!'',
                  ''That's the beauty of our Telugu expressions!'']
      | Food \<Rightarrow> [''This is authentic Andhra taste that locals love!'',
                 ''That's real Andhra flavor for you!'',
                 ''This is what makes Andhra cuisine special!'']
      | Festival \<Rightarrow> [''That's the beauty of Andhra festival traditions!'',
                     ''This is how we celebrate in Andhra culture!'',
                     ''That's the richness of our cultural heritage!'']
      | Emotion \<Rightarrow> [''That's the wisdom of Andhra food culture!'',
                    ''This is how we heal through food in our tradition!'',
                    ''That's the emotional connection we have with food!''])"

text \<open>\<open>/^(trust me|you know|let me tell|pakka|believe|honestly|simple|arey|baboi)/i\<close>\<close>

definition hasOpening :: "string \<Rightarrow> bool" where
  "hasOpening content =
     list_ex (startsWithCI content)
       [''trust me'', ''you know'', ''let me tell'', ''pakka'', ''believe'', ''honestly'',
        ''simple'', ''arey'', ''baboi'']"

definition addCulturalOpening :: "string \<Rightarrow> Region option \<Rightarrow> nat \<Rightarrow> string" where
  "addCulturalOpening content r draw =
     (if \<not> hasOpening content
      then pick (case r of Some reg \<Rightarrow> culturalGreetings reg | None \<Rightarrow> culturalGreetings Coastal)
             draw @ '', '' @ toLowerCase content
      else content)"

text \<open>\<open>word.charAt(0).toUpperCase() + word.slice(1)\<close>\<close>

definition capitalizeFirst :: "string \<Rightarrow> string" where
  "capitalizeFirst word = (case word of [] \<Rightarrow> [] | c # cs \<Rightarrow> toUpperChar c # cs)"

definition ensureTeluguIntegration :: "string \<Rightarrow> string list \<Rightarrow> string" where
  "ensureTeluguIntegration content teluguWords =
     (case teluguWords of
        [] \<Rightarrow> content
      | word # _ \<Rightarrow>
          if list_ex (\<lambda>w. includesStr (toLowerCase content) (toLowerCase w)) teluguWords
          then content
          else if toLowerCase word \<in> set [''arey'', ''baboi'']
          then capitalizeFirst word @ '', '' @ toLowerCase content
          else if toLowerCase word \<in> set [''babu'', ''amma'']
          then content @ '' That's what we call it, '' @ word @ ''!''
          else content @ '' We call it '' @ word @ '' in Telugu.'')"

text \<open>
  \<open>content.replace(/\b(T1|T2|...)\b/gi, '')\<close>.  A word character is a letter, a digit or
  the underscore; every term begins and ends with one, so the term matches where the
  character before it and the character after it are no word characters.
\<close>

definition isWordChar :: "char \<Rightarrow> bool" where
  "isWordChar c =
     (c \<in> set ''ABCDEFGHIJKLMNOPQRSTUVWXYZabcdefghijklmnopqrstuvwxyz0123456789_'')"

definition boundaryHere :: "string \<Rightarrow> bool" where
  "boundaryHere rest = (case rest of [] \<Rightarrow> True | c # _ \<Rightarrow> \<not> isWordChar c)"

definition matchTerm :: "string list \<Rightarrow> string \<Rightarrow> string option" where
  "matchTerm terms s =
     find (\<lambda>t. t \<noteq> [] \<and> startsWithCI s t \<and> boundaryHere (drop (length t) s)) terms"

function removeWords :: "string list \<Rightarrow> bool \<Rightarrow> string \<Rightarrow> string" where
  "removeWords terms afterWord [] = []"
| "removeWords terms afterWord (c # cs) =
     (case (if afterWord then None else matchTerm terms (c # cs)) of
        Some t \<Rightarrow> removeWords terms True (drop (length t) (c # cs))
      | None \<Rightarrow> c # removeWords terms (isWordChar c) cs)"
  by pat_completeness auto
termination
proof (relation "measure (\<lambda>(terms, afterWord, s). length s)")
  fix terms :: "string list" and afterWord :: bool and c :: char and cs :: string and t :: string
  assume "(if afterWord then None else matchTerm terms (c # cs)) = Some t"
  then have "matchTerm terms (c # cs) = Some t"
    by (simp split: if_splits)
  then have "t \<noteq> []"
    by (auto simp: matchTerm_def find_Some_iff)
  then show "((terms, True, drop (length t) (c # cs)), (terms, afterWord, c # cs))
               \<in> measure (\<lambda>(terms, afterWord, s). length s)"
    by (cases t) auto
qed simp_all

text \<open>\<open>.replace(/\s+/g, ' ')\<close>\<close>

function collapseSpaces :: "string \<Rightarrow> string" where
  "collapseSpaces [] = []"
| "collapseSpaces (c # cs) =
     (if isSpace c then CHR '' '' # collapseSpaces (dropWhile isSpace cs)
      else c # collapseSpaces cs)"
  by pat_completeness auto
termination
  by (relation "measure length") (auto simp: less_Suc_eq_le length_dropWhile_le)

text \<open>\<open>.replace(/\s+([,.!?])/g, '$1')\<close>\<close>

definition isPunct :: "char \<Rightarrow> bool" where
  "isPunct c = (c \<in> set '',.!?'')"

function tightenPunct :: "string \<Rightarrow> string" where
  "tightenPunct [] = []"
| "tightenPunct (c # cs) =
     (if isSpace c
      then (case dropWhile isSpace cs of
              [] \<Rightarrow> c # takeWhile isSpace cs
            | p # rest \<Rightarrow>
                if isPunct p then p # tightenPunct rest
                else c # takeWhile isSpace cs @ p # tightenPunct rest)
      else c # tightenPunct cs)"
  by pat_completeness auto
termination
proof (relation "measure length")
  fix c p :: char and cs rest :: string
  assume "dropWhile isSpace cs = p # rest"
  then have "length rest < length (dropWhile isSpace cs)"
    by simp
  also have "\<dots> \<le> length cs"
    by (rule length_dropWhile_le)
  finally show "(rest, c # cs) \<in> measure length"
    by simp
  then show "(rest, c # cs) \<in> measure length" .
qed simp_all

definition technicalTerms :: "string list list" where
  "technicalTerms =
     [[''API'', ''database'', ''dataset'', ''training data'', ''algorithm'', ''model''],
      [''implementation'', ''system'', ''interface'', ''component'', ''module''],
      [''configuration'', ''parameter'', ''function'', ''method'', ''class''],
      [''server'', ''client'', ''endpoint'', ''request'', ''response''],
      [''JSON'', ''XML'', ''HTTP'', ''REST'', ''GraphQL'']]"

definition removeTechnicalTerms :: "string \<Rightarrow> string" where
  "removeTechnicalTerms content =
     trim (tightenPunct (collapseSpaces
       (fold (\<lambda>terms cleaned. removeWords terms False cleaned) technicalTerms content)))"

text \<open>
  \<open>/\b(that's|this is|beauty|authentic|traditional|culture|heritage)\b.*[!.]$/i\<close>: a
  keyword at a word boundary, followed by a text that begins with no word character, holds
  no line terminator before its last character, and ends with \<open>!\<close> or a full stop.
\<close>

definition closingKeywords :: "string list" where
  "closingKeywords =
     [''that's'', ''this is'', ''beauty'', ''authentic'', ''traditional'', ''culture'',
      ''heritage'']"

definition closingTail :: "string \<Rightarrow> bool" where
  "closingTail rest =
     (case rest of
        [] \<Rightarrow> False
      | c # _ \<Rightarrow> \<not> isWordChar c \<and> last rest \<in> set ''!.''
                \<and> \<not> list_ex isLineTerminator (butlast rest))"

fun hasClosingFrom :: "bool \<Rightarrow> string \<Rightarrow> bool" where
  "hasClosingFrom afterWord [] = False"
| "hasClosingFrom afterWord (c # cs) =
     ((\<not> afterWord
       \<and> list_ex (\<lambda>k. startsWithCI (c # cs) k \<and> closingTail (drop (length k) (c # cs)))
            closingKeywords)
      \<or> hasClosingFrom (isWordChar c) cs)"

definition hasClosing :: "string \<Rightarrow> bool" where
  "hasClosing content = hasClosingFrom False content"

definition endsWithChar :: "string \<Rightarrow> char \<Rightarrow> bool" where
  "endsWithChar s c = (s \<noteq> [] \<and> last s = c)"

definition addCulturalClosing :: "string \<Rightarrow> Category \<Rightarrow> nat \<Rightarrow> string" where
  "addCulturalClosing content cat draw =
     (if \<not> hasClosing content
      then (if \<not> endsWithChar content CHR ''.'' \<and> \<not> endsWithChar content CHR ''!''
               \<and> \<not> endsWithChar content CHR ''?''
            then content @ ''.'' else content)
           @ '' '' @ pick (culturalClosings cat) draw
      else content)"

text \<open>\<open>.replace(/([,.!?])([A-Z])/g, '$1 $2')\<close>\<close>

fun spaceAfterPunct :: "string \<Rightarrow> string" where
  "spaceAfterPunct (c # d # cs) =
     (if isPunct c \<and> isUpperLetter d then c # CHR '' '' # d # spaceAfterPunct cs
      else c # spaceAfterPunct (d # cs))"
| "spaceAfterPunct s = s"

text \<open>
  \<open>.replace(/M\s*([a-z])/g, (match, letter) => `M ${letter.toUpperCase()}`)\<close> for a mark
  \<open>M\<close> among the full stop, \<open>!\<close> and \<open>?\<close>.
\<close>

function capitalizeAfter :: "char \<Rightarrow> string \<Rightarrow> string" where
  "capitalizeAfter mark [] = []"
| "capitalizeAfter mark (c # cs) =
     (if c = mark
      then (case dropWhile isSpace cs of
              [] \<Rightarrow> c # capitalizeAfter mark cs
            | l # rest \<Rightarrow>
                if isLowerLetter l then mark # CHR '' '' # toUpperChar l # capitalizeAfter mark rest
                else c # capitalizeAfter mark cs)
      else c # capitalizeAfter mark cs)"
  by pat_completeness auto
termination
proof (relation "measure (\<lambda>(mark, s). length s)")
  fix mark c l :: char and cs rest :: string
  assume "dropWhile isSpace cs = l # rest"
  then have "length rest < length (dropWhile isSpace cs)"
    by simp
  also have "\<dots> \<le> length cs"
    by (rule length_dropWhile_le)
  finally show "((mark, rest), (mark, c # cs)) \<in> measure (\<lambda>(mark, s). length s)"
    by simp
qed simp_all

definition improveFlow :: "string \<Rightarrow> string" where
  "improveFlow content =
     capitalizeFirst
       (trim
         (capitalizeAfter CHR ''?''
           (capitalizeAfter CHR ''!''
             (capitalizeAfter CHR ''.''
               (spaceAfterPunct (tightenPunct (collapseSpaces content)))))))"

definition formatResponse :: "CulturalResponse \<Rightarrow> Draws \<Rightarrow> string" where
  "formatResponse response draws =
     improveFlow
       (addCulturalClosing
         (removeTechnicalTerms
           (ensureTeluguIntegration
             (addCulturalOpening (resp_content response) (resp_region response)
                (draw_greeting draws))
             (resp_teluguWords response)))
         (resp_category response) (draw_closing draws))"

text \<open>The checks of \<open>validateResponseFormat\<close> that the formatter is meant to satisfy.\<close>

definition fixedTeluguWords :: "string list" where
  "fixedTeluguWords =
     [''babu'', ''amma'', ''arey'', ''baboi'', ''pappu'', ''avakaya'', ''rasam'', ''biryani'',
      ''panduga'', ''santosham'']"

definition hasTeluguWord :: "string \<Rightarrow> bool" where
  "hasTeluguWord content =
     list_ex (\<lambda>word. includesStr (toLowerCase content) word) fixedTeluguWords"

definition hasTechnicalTerms :: "string \<Rightarrow> bool" where
  "hasTechnicalTerms content =
     list_ex (\<lambda>term. includesStr (toLowerCase content) (toLowerCase term))
       [''API'', ''database'', ''dataset'', ''training'', ''algorithm'', ''system'']"


section \<open>The formality rule in the words of claim C5\<close>

text \<open>
  Claim C5 words the rule as: informal unless the sub-block text contains the word
  \<open>formal\<close>.  A word is a maximal run of word characters, compared without regard to
  case.
\<close>

function wordsOf :: "string \<Rightarrow> string list" where
  "wordsOf [] = []"
| "wordsOf (c # cs) =
     (if isWordChar c then takeWhile isWordChar (c # cs) # wordsOf (dropWhile isWordChar cs)
      else wordsOf cs)"
  by pat_completeness auto
termination
  by (relation "measure length") (auto simp: less_Suc_eq_le length_dropWhile_le)

definition containsWord :: "string \<Rightarrow> string \<Rightarrow> bool" where
  "containsWord text word = (toLowerCase word \<in> set (map toLowerCase (wordsOf text)))"

definition wordedFormalityLevel :: "string \<Rightarrow> string" where
  "wordedFormalityLevel termContent =
     (if containsWord termContent ''formal'' then ''formal'' else ''informal'')"

text \<open>
  A slang section whose only entry is the term \<open>Arey Baboi\<close> with the fields of the
  hardcoded record of that term, the usage line being \<open>Usage: Informal only\<close>; and the
  sub-block of the term.
\<close>

definition informalOnlyBlock :: string where
  "informalOnlyBlock =
     [newline] @ ''Literal: Oh my God''
     @ [newline] @ ''Emotional meaning: Shock / frustration / disbelief''
     @ [newline] @ ''Usage: Informal only''"

definition informalOnlySection :: string where
  "informalOnlySection = [dquote] @ ''Arey Baboi'' @ [dquote] @ informalOnlyBlock"

section \<open>Properties of the closest-match heuristic\<close>

lemma specScore_eq: "specScore t c = matchScore t c"
  by (auto simp: specScore_def matchScore_def includesStr_def lengthDiff_def Let_def)

lemma closestLoop_no_exact:
  "\<forall>c \<in> set cs. toLowerCase t \<noteq> toLowerCase c \<Longrightarrow>
   closestLoop t cs bm bs =
     (let m = foldr max (map (matchScore t) cs) 0
      in if m > bs \<and> m \<ge> 3 then find (\<lambda>c. matchScore t c = m) cs else bm)"
proof (induction cs arbitrary: bm bs)
  case Nil
  then show ?case by simp
next
  case (Cons c cs)
  then show ?case by (auto simp: Let_def max_def)
qed

lemma closestLoop_exact:
  "find (\<lambda>c. toLowerCase c = toLowerCase t) cs = Some c \<Longrightarrow> closestLoop t cs bm bs = Some c"
  by (induction cs arbitrary: bm bs) (auto split: if_splits)


lemma closestLoop_all_eight:
  "\<forall>c \<in> set cs. toLowerCase t \<noteq> toLowerCase c \<and> matchScore t c = 8 \<Longrightarrow>
   closestLoop t cs (Some b) 8 = Some b"
  by (induction cs) auto

text \<open>
  Claim C6.  The closest-match heuristic returns an exact case-insensitive match at once;
  otherwise it scores every candidate (0.8 for containment either way, plus 0.2 for equal
  first characters, plus 0.1 for lengths at most 2 apart) and returns the first candidate
  with the highest score when that score is at least 0.3, and null otherwise.  The query
  \<open>Ugadi\<close> against \<open>Sankranti, Ugadi, Vinayaka Chavithi\<close> gives \<open>Ugadi\<close>.
\<close>

theorem C6_findClosestMatch_spec:
  "findClosestMatch target candidates = closestMatchSpec target candidates
   \<and> findClosestMatch ''Ugadi'' [''Sankranti'', ''Ugadi'', ''Vinayaka Chavithi'']
       = Some ''Ugadi''"
proof
  show "findClosestMatch target candidates = closestMatchSpec target candidates"
  proof (cases "find (\<lambda>c. toLowerCase c = toLowerCase target) candidates")
    case None
    then have ne: "\<forall>c \<in> set candidates. toLowerCase target \<noteq> toLowerCase c"
      by (auto simp: find_None_iff)
    have sc: "specScore target = matchScore target"
      by (rule ext) (rule specScore_eq)
    show ?thesis
      unfolding findClosestMatch_def closestMatchSpec_def closestLoop_no_exact [OF ne] None sc
      by (simp add: Let_def)
  next
    case (Some c)
    then show ?thesis
      by (simp add: findClosestMatch_def closestMatchSpec_def closestLoop_exact)
  qed
next
  show "findClosestMatch ''Ugadi'' [''Sankranti'', ''Ugadi'', ''Vinayaka Chavithi'']
          = Some ''Ugadi''"
    by code_simp
qed

theorem C6_findClosestMatch_witness:
  "findClosestMatch ''Ugad'' [''Sankranti'', ''Ugadi'', ''Vinayaka Chavithi''] = Some ''Ugadi''
   \<and> findClosestMatch ''xyz'' [''Sankranti'', ''Ugadi''] = None"
proof -
  have a: "closestMatchSpec ''Ugad'' [''Sankranti'', ''Ugadi'', ''Vinayaka Chavithi'']
             = Some ''Ugadi''"
    by code_simp
  have b: "closestMatchSpec ''xyz'' [''Sankranti'', ''Ugadi''] = None"
    by code_simp
  from a b show ?thesis
    using C6_findClosestMatch_spec [of "''Ugad''" "[''Sankranti'', ''Ugadi'', ''Vinayaka Chavithi'']"]
      C6_findClosestMatch_spec [of "''xyz''" "[''Sankranti'', ''Ugadi'']"]
    by simp
qed

text \<open>
  Claim C10.  On the empty query, a non-empty candidate list whose candidates are all longer
  than two characters yields its first candidate, and never null.
\<close>

theorem C10_empty_query_first_candidate:
  assumes "candidates \<noteq> []" and "\<forall>c \<in> set candidates. length c > 2"
  shows "findClosestMatch [] candidates = Some (hd candidates)"
proof -
  have sc: "toLowerCase [] \<noteq> toLowerCase c \<and> matchScore [] c = 8" if "c \<in> set candidates" for c
  proof -
    from that assms(2) have "length c > 2" by simp
    then obtain x xs where "c = x # xs" by (cases c) auto
    with \<open>length c > 2\<close> show ?thesis
      by (simp add: matchScore_def toLowerCase_def includesStr_def charAt0_def lengthDiff_def)
  qed
  from assms(1) obtain c cs where cs: "candidates = c # cs" by (cases candidates) auto
  have "closestLoop [] cs (Some c) 8 = Some c"
    by (rule closestLoop_all_eight) (use sc cs in auto)
  with sc [of c] cs show ?thesis
    by (simp add: findClosestMatch_def)
qed

theorem C10_empty_query_witness:
  "[''Sankranti'', ''Ugadi''] \<noteq> [] \<and> length ''Sankranti'' > 2 \<and> length ''Ugadi'' > 2
   \<and> findClosestMatch [] [''Sankranti'', ''Ugadi''] = Some ''Sankranti''"
proof -
  have h1: "[''Sankranti'', ''Ugadi''] \<noteq> []" by simp
  have h2: "\<forall>c \<in> set [''Sankranti'', ''Ugadi'']. length c > 2" by simp
  from C10_empty_query_first_candidate [OF h1 h2] show ?thesis by simp
qed

section \<open>Properties of the mood table and of the store accessors\<close>

text \<open>
  Claim C8.  A mood whose lower-cased, trimmed form is none of \<open>sad, sick, happy, angry,
  tired\<close> is mapped to the fixed default: food \<open>Pappu with Avakaya\<close>, spice level
  \<open>medium\<close>, and a non-empty reasoning and cultural context.  The function is total, so
  nothing is thrown.
\<close>

theorem C8_unknown_mood_default:
  assumes "trim (toLowerCase emotion) \<notin> {''sad'', ''sick'', ''happy'', ''angry'', ''tired''}"
  shows "rec_food (mapEmotionToFood emotion) = ''Pappu with Avakaya''
         \<and> rec_spiceLevel (mapEmotionToFood emotion) = ''medium''
         \<and> rec_reasoning (mapEmotionToFood emotion) \<noteq> []
         \<and> rec_culturalContext (mapEmotionToFood emotion) \<noteq> []"
proof -
  from assms have "map_of emotionMappings (trim (toLowerCase emotion)) = None"
    by (simp add: emotionMappings_def)
  then show ?thesis
    by (simp add: mapEmotionToFood_def)
qed

theorem C8_unknown_mood_witness:
  "rec_food (mapEmotionToFood '' Bored '') = ''Pappu with Avakaya''
   \<and> rec_spiceLevel (mapEmotionToFood '' Bored '') = ''medium''
   \<and> rec_reasoning (mapEmotionToFood '' Bored '') \<noteq> []
   \<and> rec_culturalContext (mapEmotionToFood '' Bored '') \<noteq> []"
proof -
  have n: "trim (toLowerCase '' Bored '') = ''bored''"
    by code_simp
  have "trim (toLowerCase '' Bored '') \<notin> {''sad'', ''sick'', ''happy'', ''angry'', ''tired''}"
    unfolding n by simp
  from C8_unknown_mood_default [OF this] show ?thesis .
qed

lemma map_of_mapSet: "map_of (mapSet k v m) = (map_of m)(k \<mapsto> v)"
  by (induction m) auto

lemma filterThrowing_total:
  "\<forall>x \<in> set xs. \<exists>b. p x = Inr b \<Longrightarrow>
   filterThrowing p xs = Inr (filter (\<lambda>x. p x = Inr True) xs)"
  by (induction xs) auto

lemma filterThrowing_none_kept:
  "\<forall>x \<in> set xs. p x \<noteq> Inr True \<Longrightarrow>
   (case filterThrowing p xs of Inl e \<Rightarrow> [] | Inr r \<Rightarrow> r) = []"
  by (induction xs) (auto split: sum.splits)

lemma dietaryVerdict_spice [simp]:
  "dietaryVerdict (preferences\<lparr>pref_spiceLevel := l\<rparr>) food = dietaryVerdict preferences food"
  by (simp add: dietaryVerdict_def)

lemma timeVerdict_spice [simp]:
  "timeVerdict (preferences\<lparr>pref_spiceLevel := l\<rparr>) food = timeVerdict preferences food"
  by (simp add: timeVerdict_def)

lemma dietaryVerdict_not_True: "dietaryVerdict preferences food \<noteq> Some True"
  by (simp add: dietaryVerdict_def)

lemma timeVerdict_throws_uniform:
  "timeVerdict preferences food = Inl e \<Longrightarrow> timeVerdict preferences food' = Inl e"
  by (auto simp: timeVerdict_def split: option.splits if_splits sum.splits)

lemma foodFilter_throws_never_True:
  assumes "foodFilter preferences food = Inl e"
  shows "foodFilter (preferences\<lparr>pref_spiceLevel := l\<rparr>) food' \<noteq> Inr True"
proof -
  from assms have "timeVerdict preferences food = Inl e"
    by (auto simp: foodFilter_def split: option.splits if_splits)
  then have "timeVerdict preferences food' = Inl e"
    by (rule timeVerdict_throws_uniform)
  then show ?thesis
    using dietaryVerdict_not_True [of preferences food']
    by (auto simp: foodFilter_def split: option.splits)
qed

lemma foodFilter_low_extreme:
  "foodFilter (preferences\<lparr>pref_spiceLevel := Some ''low''\<rparr>) food = Inr True \<Longrightarrow>
   foodFilter (preferences\<lparr>pref_spiceLevel := Some ''extreme''\<rparr>) food = Inr True"
  by (auto simp: foodFilter_def userSpiceLevel_def spiceLevels_def jsLess_def
      split: option.splits if_splits)

lemma subseq_filter_mono:
  "\<forall>x \<in> set xs. P x \<longrightarrow> Q x \<Longrightarrow> subseq (filter P xs) (filter Q xs)"
proof -
  assume "\<forall>x \<in> set xs. P x \<longrightarrow> Q x"
  then have "filter P xs = filter P (filter Q xs)"
    by (induction xs) auto
  then show ?thesis
    by (metis subseq_filter_left)
qed

lemma filter_low_subseq_extreme:
  "subseq
     (case filterThrowing (foodFilter (preferences\<lparr>pref_spiceLevel := Some ''low''\<rparr>)) xs of
        Inl e \<Rightarrow> [] | Inr r \<Rightarrow> r)
     (case filterThrowing (foodFilter (preferences\<lparr>pref_spiceLevel := Some ''extreme''\<rparr>)) xs of
        Inl e \<Rightarrow> [] | Inr r \<Rightarrow> r)"
  (is "subseq ?low ?extreme")
proof (cases "\<exists>x \<in> set xs. \<exists>l e. foodFilter (preferences\<lparr>pref_spiceLevel := l\<rparr>) x = Inl e")
  case True
  then obtain x l e where "foodFilter (preferences\<lparr>pref_spiceLevel := l\<rparr>) x = Inl e"
    by blast
  from foodFilter_throws_never_True [OF this, of "Some ''low''"]
  have "\<forall>y \<in> set xs. foodFilter (preferences\<lparr>pref_spiceLevel := Some ''low''\<rparr>) y \<noteq> Inr True"
    by simp
  then have "?low = []"
    by (rule filterThrowing_none_kept)
  then show ?thesis by simp
next
  case False
  then have tot: "\<forall>x \<in> set xs. \<exists>b. foodFilter (preferences\<lparr>pref_spiceLevel := l\<rparr>) x = Inr b" for l
    by (metis sum.exhaust)
  show ?thesis
    unfolding filterThrowing_total [OF tot]
    by (simp add: subseq_filter_mono foodFilter_low_extreme)
qed

text \<open>
  Claim C7.  For every store, city and dietary and time-of-day preferences, the dishes
  returned for spice level \<open>low\<close> are a subsequence (same dishes, same order, possibly
  fewer) of those returned for spice level \<open>extreme\<close>.
\<close>

theorem C7_spice_low_subseq_extreme:
  "subseq (getFoodInfo st city (preferences\<lparr>pref_spiceLevel := Some ''low''\<rparr>))
          (getFoodInfo st city (preferences\<lparr>pref_spiceLevel := Some ''extreme''\<rparr>))"
proof (cases "isLoaded st")
  case True
  then show ?thesis
    using filter_low_subseq_extreme
    by (simp add: getFoodInfo_def)
next
  case False
  then show ?thesis
    by (simp add: getFoodInfo_def)
qed

lemma hardcoded_foodData:
  "foodData hardcodedStore =
     [(''visakhapatnam'', [foodEntries ! 0, foodEntries ! 1]),
      (''vijayawada'', [foodEntries ! 2, foodEntries ! 3]),
      (''guntur'', [foodEntries ! 4, foodEntries ! 5]),
      (''tirupati'', [foodEntries ! 6, foodEntries ! 7, foodEntries ! 8, foodEntries ! 9])]"
  by code_simp

theorem C7_spice_low_subseq_extreme_witness:
  "subseq
     (getFoodInfo hardcodedStore ''Tirupati''
        \<lparr>pref_dietary = Some ''any'', pref_spiceLevel = Some ''low'', pref_timeOfDay = None\<rparr>)
     (getFoodInfo hardcodedStore ''Tirupati''
        \<lparr>pref_dietary = Some ''any'', pref_spiceLevel = Some ''extreme'', pref_timeOfDay = None\<rparr>)
   \<and> map food_name (getFoodInfo hardcodedStore ''Tirupati''
        \<lparr>pref_dietary = Some ''any'', pref_spiceLevel = Some ''low'', pref_timeOfDay = None\<rparr>)
       = [''Laddu'', ''Curd Rice'']"
proof -
  have "map food_name (getFoodInfo hardcodedStore ''Tirupati''
        \<lparr>pref_dietary = Some ''any'', pref_spiceLevel = Some ''low'', pref_timeOfDay = None\<rparr>)
       = [''Laddu'', ''Curd Rice'']"
    by code_simp
  then show ?thesis
    using C7_spice_low_subseq_extreme [of hardcodedStore "''Tirupati''"
        "\<lparr>pref_dietary = Some ''any'', pref_spiceLevel = None, pref_timeOfDay = None\<rparr>"]
    by simp
qed

text \<open>
  Claim C9.  When the requested spice level is absent or is none of \<open>low, medium, high,
  extreme\<close>, the spice ceiling excludes no dish: for every store and city, \<open>getFoodInfo\<close>
  returns what the dietary and the time-of-day conditions alone let through.
\<close>

theorem C9_unknown_spice_admits_all:
  assumes "\<forall>level. pref_spiceLevel preferences = Some level \<longrightarrow>
             level \<notin> {''low'', ''medium'', ''high'', ''extreme''}"
  shows "getFoodInfo st city preferences = dishesByDietAndTime st city preferences"
proof -
  from assms have "userSpiceLevel preferences = None"
    by (auto simp: userSpiceLevel_def spiceLevels_def split: option.splits)
  then have "foodFilter preferences food = dietaryAndTimeFilter preferences food" for food
    by (simp add: foodFilter_def dietaryAndTimeFilter_def jsLess_def)
  then have "foodFilter preferences = dietaryAndTimeFilter preferences"
    by (rule ext)
  then show ?thesis
    by (simp add: getFoodInfo_def dishesByDietAndTime_def)
qed

theorem C9_unknown_spice_witness:
  "map food_name (getFoodInfo hardcodedStore ''Guntur''
      \<lparr>pref_dietary = None, pref_spiceLevel = Some ''mild'', pref_timeOfDay = Some ''evening''\<rparr>)
     = [''Mirchi Bajji'']
   \<and> map food_name (getFoodInfo hardcodedStore ''Guntur''
      \<lparr>pref_dietary = None, pref_spiceLevel = None, pref_timeOfDay = None\<rparr>)
     = [''Mirchi Bajji'', ''Gongura Pachadi'']"
proof -
  let ?p = "\<lparr>pref_dietary = None, pref_spiceLevel = Some ''mild'', pref_timeOfDay = Some ''evening''\<rparr>"
  let ?q = "\<lparr>pref_dietary = None, pref_spiceLevel = None, pref_timeOfDay = None\<rparr>"
  have hp: "\<forall>level. pref_spiceLevel ?p = Some level \<longrightarrow>
              level \<notin> {''low'', ''medium'', ''high'', ''extreme''}"
    by simp
  have hq: "\<forall>level. pref_spiceLevel ?q = Some level \<longrightarrow>
              level \<notin> {''low'', ''medium'', ''high'', ''extreme''}"
    by simp
  have a: "map food_name (dishesByDietAndTime hardcodedStore ''Guntur'' ?p) = [''Mirchi Bajji'']"
    by code_simp
  have b: "map food_name (dishesByDietAndTime hardcodedStore ''Guntur'' ?q)
             = [''Mirchi Bajji'', ''Gongura Pachadi'']"
    by code_simp
  from a b show ?thesis
    unfolding C9_unknown_spice_admits_all [OF hp] C9_unknown_spice_admits_all [OF hq]
    by simp
qed

text \<open>
  Claim C4, as stated: each of the four non-fallback accessors returns exactly null on a key
  absent from the store.  It fails for \<open>getFoodInfo\<close>: the store built from the
  hardcoded records has no city \<open>atlantis\<close>, and the value returned for it is the empty
  array, not null.
\<close>

theorem C4_counterexample:
  "map_of (foodData hardcodedStore) (toLowerCase ''Atlantis'') = None
   \<and> foodResult hardcodedStore ''Atlantis''
        \<lparr>pref_dietary = Some ''any'', pref_spiceLevel = Some ''medium'', pref_timeOfDay = None\<rparr>
       = FoodArray []
   \<and> foodResult hardcodedStore ''Atlantis''
        \<lparr>pref_dietary = Some ''any'', pref_spiceLevel = Some ''medium'', pref_timeOfDay = None\<rparr>
       \<noteq> Null"
proof -
  have "map_of (foodData hardcodedStore) (toLowerCase ''Atlantis'') = None"
    unfolding hardcoded_foodData by code_simp
  moreover have "isLoaded hardcodedStore"
    by (simp add: hardcodedStore_def)
  ultimately show ?thesis
    by (simp add: foodResult_def getFoodInfo_def)
qed

text \<open>
  Claim C4, amended.  On a key absent from the store, \<open>getSlangInfo\<close>, \<open>getFestivalInfo\<close>
  and \<open>getEmotionFoodMapping\<close> return exactly null, and \<open>getFoodInfo\<close> returns the empty
  array; none of them throws.
\<close>

theorem C4_absent_key_lookup:
  "(map_of (slangData st) (toLowerCase term) = None \<longrightarrow> slangResult st term = Null)
   \<and> (map_of (foodData st) (toLowerCase city) = None \<longrightarrow>
        foodResult st city preferences = FoodArray [])
   \<and> (map_of (festivalData st) (toLowerCase festival) = None \<longrightarrow>
        festivalResult st festival = Null)
   \<and> (map_of (emotionFoodData st) (toLowerCase emotion) = None \<longrightarrow>
        mappingResult st emotion = Null)"
  by (simp add: slangResult_def foodResult_def festivalResult_def mappingResult_def
      getSlangInfo_def getFoodInfo_def getFestivalInfo_def getEmotionFoodMapping_def)

theorem C4_absent_key_lookup_witness:
  "slangResult hardcodedStore ''Nonexistent'' = Null
   \<and> foodResult hardcodedStore ''Atlantis''
        \<lparr>pref_dietary = None, pref_spiceLevel = None, pref_timeOfDay = None\<rparr> = FoodArray []
   \<and> festivalResult hardcodedStore ''Holi'' = Null
   \<and> mappingResult hardcodedStore ''Bored'' = Null"
proof -
  have a: "map_of (slangData hardcodedStore) (toLowerCase ''Nonexistent'') = None"
    by code_simp
  have b: "map_of (foodData hardcodedStore) (toLowerCase ''Atlantis'') = None"
    by code_simp
  have c: "map_of (festivalData hardcodedStore) (toLowerCase ''Holi'') = None"
    by code_simp
  have d: "map_of (emotionFoodData hardcodedStore) (toLowerCase ''Bored'') = None"
    by code_simp
  from a b c d show ?thesis
    using C4_absent_key_lookup [of hardcodedStore "''Nonexistent''" "''Atlantis''"
        "\<lparr>pref_dietary = None, pref_spiceLevel = None, pref_timeOfDay = None\<rparr>"
        "''Holi''" "''Bored''"]
    by simp
qed

section \<open>Properties of the parser\<close>

text \<open>
  What \<open>parseSlangTerm\<close> computes from the sub-block of a term: null when the extracted
  meaning or emotional intent is empty, and otherwise a record whose formality level is
  \<open>formal\<close> exactly when the lower-cased sub-block has the substring \<open>formal\<close>.
\<close>

lemma parseSlangTerm_formality_and_discard:
  assumes "termBlock content term = Some termContent"
  shows "(extractLiteralMeaning termContent = [] \<or> extractEmotionalIntent termContent = []
            \<longrightarrow> parseSlangTerm content term = None)
         \<and> (extractLiteralMeaning termContent \<noteq> [] \<and> extractEmotionalIntent termContent \<noteq> []
            \<longrightarrow> (\<exists>slangInfo. parseSlangTerm content term = Some slangInfo
                  \<and> slang_formalityLevel slangInfo =
                      (if sublist ''formal'' (toLowerCase termContent)
                       then ''formal'' else ''informal'')))"
  using assms
  by (simp add: parseSlangTerm_def extractFormalityLevel_def includesStr_def)

lemma informalOnly_block: "termBlock informalOnlySection ''Arey Baboi'' = Some informalOnlyBlock"
  by code_simp

lemma informalOnly_words:
  "map toLowerCase (wordsOf informalOnlyBlock) =
     [''literal'', ''oh'', ''my'', ''god'', ''emotional'', ''meaning'', ''shock'',
      ''frustration'', ''disbelief'', ''usage'', ''informal'', ''only'']"
  by code_simp

lemma informalOnly_parsed:
  "parseSlangTerm informalOnlySection ''Arey Baboi'' =
     Some \<lparr>slang_term = ''Arey Baboi'', slang_literalMeaning = ''Oh my God'',
           slang_emotionalIntent = ''Shock / frustration / disbelief'',
           slang_socialAppropriateness = ''Informal only'', slang_formalityLevel = ''formal'',
           slang_regionalVariations = Some []\<rparr>"
  by code_simp

text \<open>
  Claim C5, evaluated on the sub-block of \<open>Arey Baboi\<close> whose usage line is
  \<open>Usage: Informal only\<close>.  The sub-block does not contain the word \<open>formal\<close>, so the
  claim gives the formality level \<open>informal\<close>, as the hardcoded record of the same term
  does; \<open>parseSlangTerm\<close> returns the hardcoded record with the formality level
  \<open>formal\<close>, because \<open>informal\<close> has the substring \<open>formal\<close>.
\<close>

theorem C5_informal_block_labelled_formal:
  "termBlock informalOnlySection ''Arey Baboi'' = Some informalOnlyBlock
   \<and> \<not> containsWord informalOnlyBlock ''formal''
   \<and> wordedFormalityLevel informalOnlyBlock = ''informal''
   \<and> map_option slang_formalityLevel (parseSlangTerm informalOnlySection ''Arey Baboi'')
       = Some ''formal''
   \<and> map_option slang_socialAppropriateness (parseSlangTerm informalOnlySection ''Arey Baboi'')
       = Some ''Informal only''
   \<and> parseSlangTerm informalOnlySection ''Arey Baboi''
       = Some ((hd slangEntries)\<lparr>slang_formalityLevel := ''formal''\<rparr>)
   \<and> slang_formalityLevel (hd slangEntries) = ''informal''"
proof -
  have low: "toLowerCase ''formal'' = ''formal''"
    by code_simp
  have nw: "\<not> containsWord informalOnlyBlock ''formal''"
    unfolding containsWord_def informalOnly_words low by simp
  then have wf: "wordedFormalityLevel informalOnlyBlock = ''informal''"
    by (simp add: wordedFormalityLevel_def)
  have hc: "parseSlangTerm informalOnlySection ''Arey Baboi''
              = Some ((hd slangEntries)\<lparr>slang_formalityLevel := ''formal''\<rparr>)"
    unfolding informalOnly_parsed by (simp add: slangEntries_def)
  have hf: "slang_formalityLevel (hd slangEntries) = ''informal''"
    by (simp add: slangEntries_def)
  have fl: "map_option slang_formalityLevel (parseSlangTerm informalOnlySection ''Arey Baboi'')
              = Some ''formal''"
    by (simp add: informalOnly_parsed)
  have sa: "map_option slang_socialAppropriateness
              (parseSlangTerm informalOnlySection ''Arey Baboi'') = Some ''Informal only''"
    by (simp add: informalOnly_parsed)
  from informalOnly_block nw wf fl sa hc hf show ?thesis
    by blast
qed

lemma set_map_filter: "set (List.map_filter f xs) = {y. \<exists>x \<in> set xs. f x = Some y}"
  by (induction xs) (auto simp: List.map_filter_def)

lemma parseSlangSection_valid:
  "slangInfo \<in> set (parseSlangSection content) \<Longrightarrow> validateSlangInfo slangInfo"
  by (auto simp: parseSlangSection_def set_map_filter split: option.splits if_splits)

lemma foodLoop_valid:
  "foodInfo \<in> set (foodLoop lines currentCity) \<Longrightarrow> validateFoodInfo foodInfo"
  by (induction lines currentCity rule: foodLoop.induct)
    (auto split: if_splits option.splits)

lemma flushFestival_valid:
  "festival \<in> set (flushFestival currentFestival pending) \<Longrightarrow> validateFestivalInfo festival"
  by (auto simp: flushFestival_def Let_def split: option.splits if_splits)

lemma festivalLoop_valid:
  "festival \<in> set (festivalLoop lines currentFestival pending) \<Longrightarrow>
   validateFestivalInfo festival"
  by (induction lines currentFestival pending rule: festivalLoop.induct)
    (auto split: if_splits dest: flushFestival_valid)

lemma emotionLoop_valid:
  "mapping \<in> set (emotionLoop lines) \<Longrightarrow> validateEmotionFoodMapping mapping"
  by (induction lines rule: emotionLoop.induct)
    (auto split: if_splits option.splits)

text \<open>
  Claim C3.  For every document text, every record of each of the four collections that the
  parser returns passes the validator of its kind.
\<close>

theorem C3_parser_emits_valid_records:
  "(\<forall>slangInfo \<in> set (parsed_slang (parseContent content)). validateSlangInfo slangInfo)
   \<and> (\<forall>foodInfo \<in> set (parsed_food (parseContent content)). validateFoodInfo foodInfo)
   \<and> (\<forall>festival \<in> set (parsed_festivals (parseContent content)).
         validateFestivalInfo festival)
   \<and> (\<forall>mapping \<in> set (parsed_emotions (parseContent content)).
         validateEmotionFoodMapping mapping)"
  by (auto simp: parseContent_def Let_def parseFoodSection_def parseFestivalSection_def
      parseEmotionSection_def
      dest: parseSlangSection_valid foodLoop_valid festivalLoop_valid emotionLoop_valid)

lemma sample_sections:
  "extractSections sampleDocument =
     \<lparr>sec_slang = Some sampleSlangSection, sec_food = Some sampleFoodSection,
      sec_festivals = Some sampleFestivalSection, sec_emotions = Some sampleEmotionSection\<rparr>"
  by code_simp

lemma sample_slang: "map slang_term (parseSlangSection sampleSlangSection) = [''Lite Teesko'']"
  by code_simp

lemma sample_food: "map food_name (parseFoodSection sampleFoodSection) = [''Mirchi Bajji'']"
  by code_simp

lemma sample_festivals:
  "map festival_name (parseFestivalSection sampleFestivalSection) = [''Ugadi'']"
  by code_simp

lemma sample_emotions:
  "map mapping_emotion (parseEmotionSection sampleEmotionSection) = [''sad'']"
  by code_simp

theorem C3_parser_emits_valid_records_witness:
  "map slang_term (parsed_slang (parseContent sampleDocument)) = [''Lite Teesko'']
   \<and> list_all validateSlangInfo (parsed_slang (parseContent sampleDocument))
   \<and> map food_name (parsed_food (parseContent sampleDocument)) = [''Mirchi Bajji'']
   \<and> list_all validateFoodInfo (parsed_food (parseContent sampleDocument))
   \<and> map festival_name (parsed_festivals (parseContent sampleDocument)) = [''Ugadi'']
   \<and> list_all validateFestivalInfo (parsed_festivals (parseContent sampleDocument))
   \<and> map mapping_emotion (parsed_emotions (parseContent sampleDocument)) = [''sad'']
   \<and> list_all validateEmotionFoodMapping (parsed_emotions (parseContent sampleDocument))"
  using C3_parser_emits_valid_records [of sampleDocument]
    sample_slang sample_food sample_festivals sample_emotions
  by (simp add: list_all_iff parseContent_def sample_sections orEmpty_def)

section \<open>Properties of the construction of the store\<close>

lemma newCulturalDatabase_unreadable: "newCulturalDatabase None = hardcodedStore"
  by (simp add: newCulturalDatabase_def loadCulturalData_def parseProductMd_def
      hardcodedStore_def)

lemma emotion_tired_after_hardcoded:
  "map_of (emotionFoodData (loadHardcodedData st)) ''tired'' = Some (emotionMappingEntries ! 4)"
proof -
  have low: "map (\<lambda>m. toLowerCase (mapping_emotion m)) emotionMappingEntries
               = [''sad'', ''sick'', ''happy'', ''angry'', ''tired'']"
    by code_simp
  obtain e0 e1 e2 e3 e4 where es: "emotionMappingEntries = [e0, e1, e2, e3, e4]"
    by (simp add: emotionMappingEntries_def)
  from low [unfolded es] have "toLowerCase (mapping_emotion e4) = ''tired''"
    by simp
  then show ?thesis
    by (simp add: loadHardcodedData_def loadEmotionEntries_def loadFestivalEntries_def
        loadFoodEntries_def loadSlangEntries_def es map_of_mapSet)
qed

text \<open>
  The part of claim C1 that holds: whatever the document, when its parsed data fails the
  completeness validation (and when the file cannot be read), the mood \<open>tired\<close> is found
  after construction.
\<close>

lemma fallback_provides_tired:
  assumes "file = None \<or> (\<exists>content. file = Some content \<and> \<not> isValidData (parseContent content))"
  shows "getEmotionFoodMapping (newCulturalDatabase file) ''tired''
           = Some (emotionMappingEntries ! 4)"
proof -
  have "toLowerCase ''tired'' = ''tired''"
    by code_simp
  with assms show ?thesis
    by (auto simp: getEmotionFoodMapping_def newCulturalDatabase_def loadCulturalData_def
        parseProductMd_def emotion_tired_after_hardcoded)
qed

lemma foodOnly_parsed:
  "parseContent foodOnlyDocument =
     \<lparr>parsed_slang = [],
      parsed_food =
        [\<lparr>food_name = ''Punugulu'', food_city = ''Visakhapatnam'', food_spiceLevel = ''medium'',
          food_bestTime = ''Evening'', food_description = ''medium spice'',
          food_culturalSignificance = Some ''Traditional Visakhapatnam specialty''\<rparr>],
      parsed_festivals = [], parsed_emotions = []\<rparr>"
  by code_simp

lemma foodOnly_invalid: "\<not> isValidData (parseContent foodOnlyDocument)"
  unfolding foodOnly_parsed by code_simp

lemma foodOnly_store:
  "newCulturalDatabase (Some foodOnlyDocument) =
     (loadHardcodedData (loadFromParsedData (parseContent foodOnlyDocument) emptyStore))
       \<lparr>isLoaded := True\<rparr>"
  using foodOnly_invalid
  by (simp add: newCulturalDatabase_def loadCulturalData_def parseProductMd_def)

text \<open>
  Claim C1, evaluated on a document that fails the completeness validation: a food section
  with the single dish line \<open>Punugulu \<rightarrow> medium spice\<close> under \<open>Visakhapatnam (Vizag)\<close>.
  The parsed dish is still in the store after the fallback, ahead of the two hardcoded dishes
  of the city, so the store is not the hardcoded set; the mood \<open>tired\<close> is found.
\<close>

theorem C1_fallback_keeps_parsed_data:
  "\<not> isValidData (parseContent foodOnlyDocument)
   \<and> map food_description
         (getFoodInfo (newCulturalDatabase (Some foodOnlyDocument)) ''Visakhapatnam''
            anyPreferences)
       = [''medium spice'', ''Deep-fried lentil balls, crispy outside and soft inside'',
          ''Spicy chicken preparation with coastal flavors'']
   \<and> map food_description (getFoodInfo hardcodedStore ''Visakhapatnam'' anyPreferences)
       = [''Deep-fried lentil balls, crispy outside and soft inside'',
          ''Spicy chicken preparation with coastal flavors'']
   \<and> newCulturalDatabase (Some foodOnlyDocument) \<noteq> hardcodedStore
   \<and> getEmotionFoodMapping (newCulturalDatabase (Some foodOnlyDocument)) ''tired'' \<noteq> None"
proof -
  have a: "map food_description
         (getFoodInfo (newCulturalDatabase (Some foodOnlyDocument)) ''Visakhapatnam''
            anyPreferences)
       = [''medium spice'', ''Deep-fried lentil balls, crispy outside and soft inside'',
          ''Spicy chicken preparation with coastal flavors'']"
    unfolding foodOnly_store foodOnly_parsed by code_simp
  have b: "map food_description (getFoodInfo hardcodedStore ''Visakhapatnam'' anyPreferences)
       = [''Deep-fried lentil balls, crispy outside and soft inside'',
          ''Spicy chicken preparation with coastal flavors'']"
    by code_simp
  from a b have c: "newCulturalDatabase (Some foodOnlyDocument) \<noteq> hardcodedStore"
    by auto
  have d: "getEmotionFoodMapping (newCulturalDatabase (Some foodOnlyDocument)) ''tired'' \<noteq> None"
    using foodOnly_invalid by (simp add: fallback_provides_tired)
  from foodOnly_invalid a b c d show ?thesis
    by blast
qed

section \<open>Properties of the formatter\<close>






















text \<open>
  The removal of the technical terms on the content \<open>Uses training system data\<close>, with the
  supplied word \<open>pappu\<close> of the fixed list: \<open>system\<close> is removed after the pass that
  removes \<open>training data\<close>, the white space collapses, and the output holds the term
  \<open>training data\<close>, which the check of \<open>validateResponseFormat\<close> reports.
\<close>

lemma formatResponse_leaves_training_data:
  "formatResponse
     \<lparr>resp_content = ''Uses training system data'', resp_teluguWords = [''pappu''],
      resp_culturalTone = ''warm and friendly'', resp_region = None, resp_category = Food\<rparr>
     \<lparr>draw_greeting = 0, draw_closing = 0\<rparr>
     = ''Trust me, uses training data We call it pappu in Telugu. This is authentic Andhra taste that locals love!''
   \<and> hasTeluguWord
        ''Trust me, uses training data We call it pappu in Telugu. This is authentic Andhra taste that locals love!''
   \<and> hasTechnicalTerms
        ''Trust me, uses training data We call it pappu in Telugu. This is authentic Andhra taste that locals love!''
   \<and> includesStr
        ''Trust me, uses training data We call it pappu in Telugu. This is authentic Andhra taste that locals love!''
        ''training data''"
  by code_simp



end
